theory Spec2Isabelle
  imports Complex_Main "HOL-Library.Sublist"
begin

section \<open>JavaScript values used by the renderer\<close>

text \<open>
  A JavaScript string is a sequence of UTF-16 code units; it is modelled as a list of
  natural numbers, one per code unit, so that \<open>length\<close> is the source's \<open>.length\<close>
  and a bullet glyph such as U+2022 is one element.  \<open>S\<close> turns an ASCII literal of the
  source into that representation.

  A JavaScript number is a double; it is modelled by the rational that is its exact
  value.  The geometry of the renderers (gaps, bottoms, available widths, totals) is
  computed with the runtime's own addition, subtraction, multiplication and division of
  doubles, which round their result and which the model takes from the host as they
  are.  \<open>Math.round\<close>, comparisons, \<open>Math.min\<close> and \<open>Math.max\<close> are exact on
  doubles.  The colour arithmetic is written with the exact operations; on the concrete
  inputs evaluated below its intermediate values are dyadic rationals that doubles
  represent exactly.
\<close>

type_synonym jsstring = "nat list"

definition S :: "string \<Rightarrow> jsstring" where
  "S s = map of_char s"

text \<open>\<open>Math.round\<close>: the nearest integer, a tie going towards plus infinity.\<close>

definition Math_round :: "rat \<Rightarrow> int" where
  "Math_round v = \<lfloor>v + 1 / 2\<rfloor>"

definition digitChar :: "nat \<Rightarrow> nat" where
  "digitChar d = (if d < 10 then 48 + d else 87 + d)"

fun digitsBase :: "nat \<Rightarrow> nat \<Rightarrow> jsstring" where
  "digitsBase base n =
     (if base < 2 \<or> n < base then [digitChar n]
      else digitsBase base (n div base) @ [digitChar (n mod base)])"

declare digitsBase.simps [simp del]

text \<open>\<open>n.toString(radix)\<close> of an integer-valued number: a minus sign, then the digits.\<close>

definition intToString :: "nat \<Rightarrow> int \<Rightarrow> jsstring" where
  "intToString radix i =
     (if i < 0 then S ''-'' @ digitsBase radix (nat (- i)) else digitsBase radix (nat i))"

text \<open>\<open>`${i}`\<close> for an integer-valued number \<open>i\<close>.\<close>

definition intStr :: "int \<Rightarrow> jsstring" where
  "intStr i = intToString 10 i"

text \<open>\<open>s.slice(-2)\<close>: the last two code units (the whole string when it is shorter).\<close>

definition sliceLast2 :: "jsstring \<Rightarrow> jsstring" where
  "sliceLast2 s = drop (length s - 2) s"

section \<open>Colour resolver\<close>

datatype RgbColor = Rgb (col_r: rat) (col_g: rat) (col_b: rat)

datatype RgbaColor = Rgba (fg_r: rat) (fg_g: rat) (fg_b: rat) (fg_a: rat)

text \<open>
  A paint of a fill or stroke list.  The boolean is the source's test
  \<open>f.visible !== false\<close>; the optional number is \<open>opacity\<close>, absent when \<open>undefined\<close>.
  Of a gradient the renderer reads only \<open>gradientStops[0].color\<close>: its RGB part and its
  alpha \<open>a\<close>.
\<close>

datatype Paint =
    SolidPaint RgbColor "rat option" bool
  | GradientPaint RgbColor "rat option" bool
  | ImagePaint bool
  | OtherPaint bool

fun paintVisible :: "Paint \<Rightarrow> bool" where
  "paintVisible (SolidPaint c opac v) = v"
| "paintVisible (GradientPaint c a v) = v"
| "paintVisible (ImagePaint v) = v"
| "paintVisible (OtherPaint v) = v"

fun isSolid :: "Paint \<Rightarrow> bool" where
  "isSolid (SolidPaint c opac v) = True"
| "isSolid p = False"

fun isImagePaint :: "Paint \<Rightarrow> bool" where
  "isImagePaint (ImagePaint v) = True"
| "isImagePaint p = False"

record EffectiveColor =
  hex :: "jsstring option"
  rgb :: RgbColor

text \<open>\<open>toHex\<close>, the local function of \<open>figmaColorToHex\<close>.\<close>

definition toHex :: "rat \<Rightarrow> jsstring" where
  "toHex c = sliceLast2 (S ''0'' @ intToString 16 (Math_round (c * 255)))"

definition figmaColorToHex :: "RgbColor \<Rightarrow> jsstring" where
  "figmaColorToHex color =
     S ''#'' @ toHex (col_r color) @ toHex (col_g color) @ toHex (col_b color)"

definition blendColors :: "RgbaColor \<Rightarrow> RgbColor \<Rightarrow> RgbColor" where
  "blendColors fg bg =
     Rgb (fg_r fg * fg_a fg + col_r bg * (1 - fg_a fg))
         (fg_g fg * fg_a fg + col_g bg * (1 - fg_a fg))
         (fg_b fg * fg_a fg + col_b bg * (1 - fg_a fg))"

text \<open>\<open>fill.opacity ?? 1\<close>.\<close>

definition orOne :: "rat option \<Rightarrow> rat" where
  "orOne v = (case v of None \<Rightarrow> 1 | Some a \<Rightarrow> a)"

text \<open>
  \<open>getEffectiveBackgroundColorForFills\<close> of \<^verbatim>\<open>src/code.ts\<close>: the first visible solid
  paint decides.
\<close>

definition getEffectiveBackgroundColorForFills ::
    "Paint list \<Rightarrow> RgbColor \<Rightarrow> EffectiveColor" where
  "getEffectiveBackgroundColorForFills fills parentBgColor =
     (case find (\<lambda>f. isSolid f \<and> paintVisible f) fills of
        Some (SolidPaint color opac v) \<Rightarrow>
          (let totalOpacity = orOne opac in
           if totalOpacity \<ge> 99 / 100
           then \<lparr>hex = Some (figmaColorToHex color), rgb = color\<rparr>
           else (let finalRgb = blendColors
                     (Rgba (col_r color) (col_g color) (col_b color) totalOpacity) parentBgColor
                 in \<lparr>hex = Some (figmaColorToHex finalRgb), rgb = finalRgb\<rparr>))
      | _ \<Rightarrow> \<lparr>hex = None, rgb = parentBgColor\<rparr>)"

text \<open>
  \<open>getEffectiveBackgroundColorForFills\<close> of the revision with image export modes
  (\<^verbatim>\<open>src/unnamed/part_000\<close>): the first visible paint decides, a gradient through its
  first stop.
\<close>

definition getEffectiveBackgroundColorForFills_x ::
    "Paint list \<Rightarrow> RgbColor \<Rightarrow> EffectiveColor" where
  "getEffectiveBackgroundColorForFills_x fills parentBgColor =
     (case find paintVisible fills of
        None \<Rightarrow> \<lparr>hex = None, rgb = parentBgColor\<rparr>
      | Some visibleFill \<Rightarrow>
          (case (case visibleFill of
                   SolidPaint color opac v \<Rightarrow> Some (color, orOne opac)
                 | GradientPaint color a v \<Rightarrow> Some (color, orOne a)
                 | _ \<Rightarrow> None) of
             None \<Rightarrow> \<lparr>hex = None, rgb = parentBgColor\<rparr>
           | Some (color, opacity) \<Rightarrow>
               if opacity \<ge> 99 / 100
               then \<lparr>hex = Some (figmaColorToHex color), rgb = color\<rparr>
               else (let finalRgb = blendColors
                         (Rgba (col_r color) (col_g color) (col_b color) opacity) parentBgColor
                     in \<lparr>hex = Some (figmaColorToHex finalRgb), rgb = finalRgb\<rparr>)))"

section \<open>Style accumulator\<close>

text \<open>
  \<open>String.prototype.trim\<close> removes the ECMAScript white space and line terminator code
  units at both ends.
\<close>

definition isWhiteSpace :: "nat \<Rightarrow> bool" where
  "isWhiteSpace c =
     (c \<in> set [9, 10, 11, 12, 13, 32, 160, 5760, 8232, 8233, 8239, 8287, 12288, 65279]
      \<or> (8192 \<le> c \<and> c \<le> 8202))"

definition trim :: "jsstring \<Rightarrow> jsstring" where
  "trim s = rev (dropWhile isWhiteSpace (rev (dropWhile isWhiteSpace s)))"

text \<open>\<open>s.split(c)\<close> for a separator \<open>c\<close> of one code unit; \<open>"".split(c)\<close> is \<open>[""]\<close>.\<close>

fun splitOn :: "nat \<Rightarrow> jsstring \<Rightarrow> jsstring list" where
  "splitOn c [] = [[]]"
| "splitOn c (x # xs) =
     (if x = c then [] # splitOn c xs
      else (case splitOn c xs of
              [] \<Rightarrow> [[x]]
            | p # ps \<Rightarrow> (x # p) # ps))"

text \<open>\<open>xs.join(sep)\<close>.\<close>

fun joinWith :: "jsstring \<Rightarrow> jsstring list \<Rightarrow> jsstring" where
  "joinWith sep [] = []"
| "joinWith sep [x] = x"
| "joinWith sep (x # y # ys) = x @ sep @ joinWith sep (y # ys)"

text \<open>
  A JavaScript \<open>Map\<close> with string keys, in insertion order: \<open>set\<close> on a key that is
  present replaces its value and keeps its position.
\<close>

type_synonym styleMap = "(jsstring \<times> jsstring) list"

fun mapSet :: "styleMap \<Rightarrow> jsstring \<Rightarrow> jsstring \<Rightarrow> styleMap" where
  "mapSet [] k v = [(k, v)]"
| "mapSet ((k', v') # m) k v =
     (if k' = k then (k, v) # m else (k', v') # mapSet m k v)"

text \<open>\<open>[...new Set(xs)]\<close>: the first occurrence of every element, in order.\<close>

definition newSet :: "jsstring list \<Rightarrow> jsstring list" where
  "newSet xs = foldl (\<lambda>acc x. if x \<in> set acc then acc else acc @ [x]) [] xs"

text \<open>\<open>f.replace(/'/g, "")\<close>.\<close>

definition removeQuotes :: "jsstring \<Rightarrow> jsstring" where
  "removeQuotes f = filter (\<lambda>c. c \<noteq> 39) f"

text \<open>The body of the \<open>forEach\<close> callback of \<open>sanitizeStyles\<close> (\<^verbatim>\<open>src/code.ts\<close>).\<close>

definition sanitizeRule :: "styleMap \<Rightarrow> jsstring \<Rightarrow> styleMap" where
  "sanitizeRule styleMap rule =
     (case splitOn 58 rule of
        [] \<Rightarrow> styleMap
      | key # valueParts \<Rightarrow>
          (let value = trim (joinWith (S '':'') valueParts) in
           if key = [] \<or> value = [] then styleMap
           else (let prop = trim key in
                 if prop = S ''font-family''
                 then (let fonts = map (\<lambda>f. removeQuotes (trim f)) (splitOn 44 value)
                       in mapSet styleMap prop (joinWith (S '', '') (newSet fonts)))
                 else mapSet styleMap prop value)))"

definition entriesToString :: "styleMap \<Rightarrow> jsstring" where
  "entriesToString m = joinWith (S '';'') (map (\<lambda>(k, v). k @ S '':'' @ v) m)"

definition sanitizeStyles :: "jsstring \<Rightarrow> jsstring" where
  "sanitizeStyles styleStr =
     (if styleStr = [] then []
      else entriesToString
             (foldl sanitizeRule [] (filter (\<lambda>rule. trim rule \<noteq> []) (splitOn 59 styleStr))))"

text \<open>\<open>/^0(px|pt|em|rem|%|vw|vh)?$/.test(value)\<close>.\<close>

definition isZeroLength :: "jsstring \<Rightarrow> bool" where
  "isZeroLength v =
     (case v of
        [] \<Rightarrow> False
      | c # u \<Rightarrow> c = 48 \<and>
          u \<in> set [[], S ''px'', S ''pt'', S ''em'', S ''rem'', S ''%'', S ''vw'', S ''vh''])"

text \<open>The \<open>filter\<close> callback of \<open>cleanZeroValueStyles\<close> (\<^verbatim>\<open>src/code.ts\<close>).\<close>

definition cleanZeroKeep :: "jsstring \<Rightarrow> bool" where
  "cleanZeroKeep rule =
     (if trim rule = [] then False
      else (case splitOn 58 rule of
              p0 # p1 # ps \<Rightarrow>
                (let value = trim p1;
                     isZeroLength = isZeroLength value;
                     key = trim p0
                 in if (case splitOn 45 key of [] \<Rightarrow> False
                        | k0 # ks \<Rightarrow> k0 \<in> set [S ''margin'', S ''padding'', S ''border'',
                                                 S ''border-radius''])
                       \<and> isZeroLength
                    then False else True)
            | _ \<Rightarrow> True))"

definition cleanZeroValueStyles :: "jsstring \<Rightarrow> jsstring" where
  "cleanZeroValueStyles styleStr =
     (if styleStr = [] then []
      else joinWith (S '';'') (filter cleanZeroKeep (splitOn 59 styleStr)))"

text \<open>
  The accumulation step: every call site that prunes composes the two functions as
  \<open>this.sanitizeStyles(this.cleanZeroValueStyles(...))\<close>.
\<close>

definition accumulate :: "jsstring \<Rightarrow> jsstring" where
  "accumulate s = sanitizeStyles (cleanZeroValueStyles s)"

text \<open>The same functions in the revision with image export modes (\<^verbatim>\<open>src/unnamed/part_000\<close>).\<close>

definition sanitizeRule_x :: "styleMap \<Rightarrow> jsstring \<Rightarrow> styleMap" where
  "sanitizeRule_x styleMap rule =
     (case splitOn 58 rule of
        [] \<Rightarrow> styleMap
      | key # valueParts \<Rightarrow>
          (let value = trim (joinWith (S '':'') valueParts) in
           if key = [] \<or> value = [] then styleMap
           else mapSet styleMap (trim key) value))"

definition sanitizeStyles_x :: "jsstring \<Rightarrow> jsstring" where
  "sanitizeStyles_x styleStr =
     (if styleStr = [] then []
      else entriesToString
             (foldl sanitizeRule_x [] (filter (\<lambda>rule. trim rule \<noteq> []) (splitOn 59 styleStr))))"

text \<open>\<open>/^0(px|pt|em|%|vw|vh)?$/.test(value)\<close>.\<close>

definition isZero_x :: "jsstring \<Rightarrow> bool" where
  "isZero_x v =
     (case v of
        [] \<Rightarrow> False
      | c # u \<Rightarrow> c = 48 \<and> u \<in> set [[], S ''px'', S ''pt'', S ''em'', S ''%'', S ''vw'', S ''vh''])"

text \<open>
  The \<open>filter\<close> callback of that revision.  \<open>[key, value] = rule.split(":").map(trim)\<close>
  leaves \<open>value\<close> undefined when the rule has no colon; \<open>!value\<close> then keeps the rule, as
  it does for an empty value.  In the last test \<open>&&\<close> binds tighter than \<open>||\<close>.
\<close>

definition cleanZeroKeep_x :: "jsstring \<Rightarrow> bool" where
  "cleanZeroKeep_x rule =
     (if trim rule = [] then False
      else (case map trim (splitOn 58 rule) of
              key # value # ps \<Rightarrow>
                (if value = [] then True
                 else (let isZero = isZero_x value
                       in if sublist (S ''border-radius'') key
                             \<or> ((prefix (S ''padding'') key \<or> prefix (S ''margin'') key
                                  \<or> prefix (S ''border'') key) \<and> isZero)
                          then False else True))
            | _ \<Rightarrow> True))"

definition cleanZeroValueStyles_x :: "jsstring \<Rightarrow> jsstring" where
  "cleanZeroValueStyles_x styleStr =
     (if styleStr = [] then []
      else joinWith (S '';'') (filter cleanZeroKeep_x (splitOn 59 styleStr)))"

text \<open>
  The vocabulary of the specification for a style string: its declarations are the
  non-blank pieces between semicolons; the property of a declaration is the trimmed text
  before its first colon, its value the trimmed text between the first and the second.
\<close>

definition declarations :: "jsstring \<Rightarrow> jsstring list" where
  "declarations s = filter (\<lambda>d. trim d \<noteq> []) (splitOn 59 s)"

definition declProperty :: "jsstring \<Rightarrow> jsstring" where
  "declProperty d = trim (takeWhile (\<lambda>c. c \<noteq> 58) d)"

definition declValue :: "jsstring \<Rightarrow> jsstring option" where
  "declValue d =
     (if 58 \<in> set d
      then Some (trim (takeWhile (\<lambda>c. c \<noteq> 58) (tl (dropWhile (\<lambda>c. c \<noteq> 58) d))))
      else None)"

text \<open>The zero lengths \<open>0\<close>, \<open>0px\<close>, \<open>0pt\<close>, \<open>0em\<close>, \<open>0%\<close>, \<open>0vw\<close>, \<open>0vh\<close>.\<close>

definition zeroLength :: "jsstring \<Rightarrow> bool" where
  "zeroLength v =
     (v \<in> set [S ''0'', S ''0px'', S ''0pt'', S ''0em'', S ''0%'', S ''0vw'', S ''0vh''])"

text \<open>
  A spacing property: in \<^verbatim>\<open>src/code.ts\<close> one whose first hyphen-separated component is
  \<open>margin\<close>, \<open>padding\<close> or \<open>border\<close>; in the other revision one that starts with one of
  these words.
\<close>

definition spacingProperty :: "jsstring \<Rightarrow> bool" where
  "spacingProperty p =
     (takeWhile (\<lambda>c. c \<noteq> 45) p \<in> set [S ''margin'', S ''padding'', S ''border''])"

definition spacingProperty_x :: "jsstring \<Rightarrow> bool" where
  "spacingProperty_x p =
     (prefix (S ''margin'') p \<or> prefix (S ''padding'') p \<or> prefix (S ''border'') p)"

definition zeroSpacingDecl :: "jsstring \<Rightarrow> bool" where
  "zeroSpacingDecl d =
     (case declValue d of
        None \<Rightarrow> False
      | Some v \<Rightarrow> spacingProperty (declProperty d) \<and> (zeroLength v \<or> v = S ''0rem''))"

definition zeroSpacingDecl_x :: "jsstring \<Rightarrow> bool" where
  "zeroSpacingDecl_x d =
     (case declValue d of
        None \<Rightarrow> False
      | Some v \<Rightarrow> spacingProperty_x (declProperty d) \<and> zeroLength v)"

definition borderRadiusDecl :: "jsstring \<Rightarrow> bool" where
  "borderRadiusDecl d =
     (case declValue d of
        None \<Rightarrow> False
      | Some v \<Rightarrow> v \<noteq> [] \<and> sublist (S ''border-radius'') (declProperty d))"

section \<open>Design nodes\<close>

datatype NodeType =
  FRAME | GROUP | COMPONENT | INSTANCE | RECTANGLE | ELLIPSE | TEXT | VECTOR | LINE | OTHER

text \<open>
  The \<open>fills\<close> property: absent (\<open>'fills' in node\<close> is false), the symbol
  \<open>figma.mixed\<close>, or an array of paints.
\<close>

datatype FillsProp = NoFills | MixedFills | Fills "Paint list"

datatype LayoutMode = LayoutNone | LayoutHorizontal | LayoutVertical

datatype AxisAlign = AlignMin | AlignCenter | AlignMax | AlignSpaceBetween | AlignBaseline

datatype TextAlign = AlignLeft | AlignCenterText | AlignRight | AlignJustified

datatype LineHeight = LineHeightAuto | LineHeightPixels rat | LineHeightPercent rat

datatype TextDecoration = DecorationNone | DecorationUnderline | DecorationStrikethrough

record FontName =
  font_family :: jsstring
  font_style :: jsstring

text \<open>
  One element of \<open>node.getStyledTextSegments([...])\<close>.  The run boundaries and styles are
  computed by the host; \<open>seg_fontName\<close> is \<open>None\<close> when the host reports a symbol
  instead of a font.
\<close>

record Segment =
  seg_characters :: jsstring
  seg_fontName :: "FontName option"
  seg_fontSize :: rat
  seg_fills :: "Paint list"
  seg_lineHeight :: LineHeight
  seg_textDecoration :: TextDecoration

text \<open>
  The properties of a scene node that the renderer reads.  A numeric property is \<open>None\<close>
  when the node does not have it or when it is not a number (\<open>figma.mixed\<close>);
  \<open>n_strokes\<close> is \<open>None\<close> when the node has no stroke array.  \<open>n_parentFills\<close> lists the
  \<open>fills\<close> of the ancestors met by walking \<open>node.parent\<close> up to, and not including, the
  page; \<open>n_parentIsPage\<close> tells whether \<open>node.parent\<close> is the page.
\<close>

record NodeProps =
  n_id :: jsstring
  n_name :: jsstring
  n_type :: NodeType
  n_visible :: bool
  n_x :: rat
  n_y :: rat
  n_width :: rat
  n_height :: rat
  n_fills :: FillsProp
  n_strokes :: "Paint list option"
  n_strokeWeight :: "rat option"
  n_cornerRadius :: "rat option"
  n_layoutMode :: "LayoutMode option"
  n_paddingTop :: "rat option"
  n_paddingBottom :: "rat option"
  n_paddingLeft :: "rat option"
  n_paddingRight :: "rat option"
  n_itemSpacing :: "rat option"
  n_primaryAxisAlignItems :: "AxisAlign option"
  n_counterAxisAlignItems :: "AxisAlign option"
  n_characters :: jsstring
  n_textAlignHorizontal :: TextAlign
  n_fontName :: "FontName option"
  n_fontSize :: "rat option"
  n_segments :: "Segment list"
  n_parentFills :: "FillsProp list"
  n_parentIsPage :: bool

text \<open>
  A node with its children.  The list is empty for a node without a \<open>children\<close>
  property: every test \<open>"children" in node\<close> of the source is followed by a test that the
  array is not empty, or by a default \<open>[]\<close>.  The renderer never writes to a node.
\<close>

datatype Node = Node (props: NodeProps) (children: "Node list")

abbreviation node_id :: "Node \<Rightarrow> jsstring" where "node_id node \<equiv> n_id (props node)"
abbreviation node_name :: "Node \<Rightarrow> jsstring" where "node_name node \<equiv> n_name (props node)"
abbreviation node_type :: "Node \<Rightarrow> NodeType" where "node_type node \<equiv> n_type (props node)"
abbreviation node_visible :: "Node \<Rightarrow> bool" where "node_visible node \<equiv> n_visible (props node)"
abbreviation node_x :: "Node \<Rightarrow> rat" where "node_x node \<equiv> n_x (props node)"
abbreviation node_y :: "Node \<Rightarrow> rat" where "node_y node \<equiv> n_y (props node)"
abbreviation node_width :: "Node \<Rightarrow> rat" where "node_width node \<equiv> n_width (props node)"
abbreviation node_height :: "Node \<Rightarrow> rat" where "node_height node \<equiv> n_height (props node)"
abbreviation node_fills :: "Node \<Rightarrow> FillsProp" where "node_fills node \<equiv> n_fills (props node)"
abbreviation node_layoutMode :: "Node \<Rightarrow> LayoutMode option" where
  "node_layoutMode node \<equiv> n_layoutMode (props node)"
abbreviation node_characters :: "Node \<Rightarrow> jsstring" where
  "node_characters node \<equiv> n_characters (props node)"

text \<open>
  What the model takes from the host and from the JavaScript runtime without computing
  it: the sum, difference, product and quotient of two doubles as the runtime rounds
  them, the decimal rendering of a number that is not an integer, \<open>toFixed(2)\<close> of a
  quotient times 100, \<open>encodeURIComponent\<close>, the rasterized export of a node at a given
  pixel width (\<open>None\<close> when \<open>exportAsync\<close> rejects), \<open>figma.base64Encode\<close>, and the
  rendering of a member that the lookup \<open>bulletCharacterMap[key]\<close> inherits from
  \<open>Object.prototype\<close> (\<open>None\<close> for every other key).  Font loading is taken to succeed.
\<close>

record Host =
  numberAdd :: "rat \<Rightarrow> rat \<Rightarrow> rat"
  numberSub :: "rat \<Rightarrow> rat \<Rightarrow> rat"
  numberMul :: "rat \<Rightarrow> rat \<Rightarrow> rat"
  numberDiv :: "rat \<Rightarrow> rat \<Rightarrow> rat"
  fractionToString :: "rat \<Rightarrow> jsstring"
  percentToFixed2 :: "rat \<Rightarrow> rat \<Rightarrow> jsstring"
  encodeURIComponent :: "jsstring \<Rightarrow> jsstring"
  exportAsync :: "Node \<Rightarrow> int \<Rightarrow> nat list option"
  base64Encode :: "nat list \<Rightarrow> jsstring"
  inheritedMember :: "jsstring \<Rightarrow> jsstring option"

text \<open>
  \<open>`${v}`\<close> for a number \<open>v\<close>: the decimal digits of an integer (as JavaScript prints
  it below \<open>10^21\<close>), the host's rendering otherwise.
\<close>

definition numStr :: "Host \<Rightarrow> rat \<Rightarrow> jsstring" where
  "numStr host v = (if of_int \<lfloor>v\<rfloor> = v then intStr \<lfloor>v\<rfloor> else fractionToString host v)"

text \<open>\<open>a / b > c\<close>, where a division by zero gives an infinity or \<open>NaN\<close>.\<close>

definition quotientExceeds :: "Host \<Rightarrow> rat \<Rightarrow> rat \<Rightarrow> rat \<Rightarrow> bool" where
  "quotientExceeds host a b c = (if b = 0 then a > 0 else numberDiv host a b > c)"

text \<open>\<open>[...].filter(Boolean)\<close> on an array of strings and \<open>null\<close>s.\<close>

definition filterBoolean :: "jsstring option list \<Rightarrow> jsstring list" where
  "filterBoolean xs = concat (map (\<lambda>v. case v of None \<Rightarrow> [] | Some s \<Rightarrow> if s = [] then [] else [s]) xs)"

text \<open>\<open>s.toLowerCase()\<close>, on the letters A to Z.\<close>

definition toLowerCase :: "jsstring \<Rightarrow> jsstring" where
  "toLowerCase s = map (\<lambda>c. if 65 \<le> c \<and> c \<le> 90 then c + 32 else c) s"

definition isBold :: "jsstring \<Rightarrow> bool" where
  "isBold style = sublist (S ''bold'') (toLowerCase style)"

definition textAlignLower :: "TextAlign \<Rightarrow> jsstring" where
  "textAlignLower a =
     (case a of AlignLeft \<Rightarrow> S ''left'' | AlignCenterText \<Rightarrow> S ''center''
      | AlignRight \<Rightarrow> S ''right'' | AlignJustified \<Rightarrow> S ''justified'')"

text \<open>\<open>s.replace(/&/g, "&amp;").replace(/</g, "&lt;").replace(/>/g, "&gt;").replace(/\n/g, "<br />")\<close>.\<close>

definition replaceAll :: "nat \<Rightarrow> jsstring \<Rightarrow> jsstring \<Rightarrow> jsstring" where
  "replaceAll c by s = concat (map (\<lambda>d. if d = c then by else [d]) s)"

definition sanitizeChars :: "jsstring \<Rightarrow> jsstring" where
  "sanitizeChars s =
     replaceAll 10 (S ''<br />'')
       (replaceAll 62 (S ''&gt;'') (replaceAll 60 (S ''&lt;'') (replaceAll 38 (S ''&amp;'') s)))"

definition bulletCharacterMap :: "(jsstring \<times> jsstring) list" where
  "bulletCharacterMap = [([8226], S ''&#8226;''), (S ''*'', S ''&#8226;''), (S ''-'', S ''&#8211;'')]"

text \<open>\<open>bulletCharacterMap[key] || content\<close>.\<close>

definition bulletOr :: "Host \<Rightarrow> jsstring \<Rightarrow> jsstring \<Rightarrow> jsstring" where
  "bulletOr host key content =
     (case map_of bulletCharacterMap key of
        Some entity \<Rightarrow> entity
      | None \<Rightarrow> (case inheritedMember host key of Some member \<Rightarrow> member | None \<Rightarrow> content))"

section \<open>The renderer of \<^verbatim>\<open>src/code.ts\<close>\<close>

subsection \<open>Borders and backgrounds\<close>

text \<open>The \<open>while\<close> loop of \<open>findParentBackgroundColor\<close>, over the ancestors' fills.\<close>

fun findParentBackgroundColorLoop :: "FillsProp list \<Rightarrow> RgbColor" where
  "findParentBackgroundColorLoop [] = Rgb 1 1 1"
| "findParentBackgroundColorLoop (parentFills # rest) =
     (case parentFills of
        Fills fs \<Rightarrow>
          (case find (\<lambda>f. isSolid f \<and> paintVisible f) fs of
             Some (SolidPaint color opac v) \<Rightarrow>
               if orOne opac \<ge> 99 / 100 then color else findParentBackgroundColorLoop rest
           | _ \<Rightarrow> findParentBackgroundColorLoop rest)
      | _ \<Rightarrow> findParentBackgroundColorLoop rest)"

definition findParentBackgroundColor :: "Node \<Rightarrow> RgbColor" where
  "findParentBackgroundColor node = findParentBackgroundColorLoop (n_parentFills (props node))"

definition getBorderStyles :: "Node \<Rightarrow> jsstring option" where
  "getBorderStyles node =
     (case (n_strokes (props node), n_strokeWeight (props node)) of
        (Some strokes, Some strokeWeight) \<Rightarrow>
          if strokes = [] \<or> strokeWeight = 0 then None
          else (case find (\<lambda>s. paintVisible s \<and> isSolid s) strokes of
                  Some stroke \<Rightarrow>
                    (let weight = Math_round strokeWeight in
                     if weight = 0 then None
                     else (let parentBg = findParentBackgroundColor node;
                               colorHex = hex (getEffectiveBackgroundColorForFills [stroke] parentBg)
                           in Some (S ''border: '' @ intStr weight @ S ''px solid ''
                                    @ (case colorHex of None \<Rightarrow> S ''#000000'' | Some h \<Rightarrow> h)
                                    @ S '';'')))
                | None \<Rightarrow> None)
      | _ \<Rightarrow> None)"

definition getEffectiveBackgroundColor :: "Node \<Rightarrow> RgbColor \<Rightarrow> EffectiveColor" where
  "getEffectiveBackgroundColor node parentBgColor =
     (case node_fills node of
        NoFills \<Rightarrow> getEffectiveBackgroundColorForFills [] parentBgColor
      | Fills fs \<Rightarrow> getEffectiveBackgroundColorForFills fs parentBgColor
      | MixedFills \<Rightarrow> \<lparr>hex = None, rgb = parentBgColor\<rparr>)"

subsection \<open>Classification\<close>

fun isVectorial :: "Node \<Rightarrow> bool" where
  "isVectorial (Node p cs) =
     (if cs = [] then n_type p \<in> set [VECTOR, ELLIPSE, LINE, RECTANGLE]
      else list_all (\<lambda>child. node_type child \<noteq> TEXT \<and> isVectorial child) cs)"

definition isIconGroup :: "Node \<Rightarrow> bool" where
  "isIconGroup node = (if children node = [] then False else isVectorial node)"

definition hasImageFill :: "Node \<Rightarrow> bool" where
  "hasImageFill node =
     (case node_fills node of Fills fs \<Rightarrow> list_ex isImagePaint fs | _ \<Rightarrow> False)"

definition isImageLikeNode :: "Node \<Rightarrow> bool" where
  "isImageLikeNode node =
     (if node_type node = RECTANGLE \<and> hasImageFill node then True
      else node_type node \<in> set [VECTOR, LINE] \<or> isIconGroup node)"

definition isPotentialCta :: "Node \<Rightarrow> bool" where
  "isPotentialCta node =
     (if node_type node \<noteq> FRAME \<and> node_type node \<noteq> GROUP then False
      else if length (children node) \<noteq> 2 then False
      else (let hasText = list_ex (\<lambda>child. node_type child = TEXT) (children node);
                hasShape = list_ex (\<lambda>child. node_type child = RECTANGLE \<or> node_type child = ELLIPSE)
                             (children node)
            in hasText \<and> hasShape))"

text \<open>
  \<open>bulletChar in bulletCharacterMap\<close> is asked of a string of length one only; a key of
  that length is found among the map's own keys or not at all.
\<close>

definition isBulletPoint :: "Node \<Rightarrow> bool" where
  "isBulletPoint node =
     (if node_type node \<noteq> FRAME \<or> \<not> node_visible node then False
      else if node_layoutMode node \<noteq> Some LayoutHorizontal \<or> length (children node) \<noteq> 2
      then False
      else (case children node of
              [firstChild, secondChild] \<Rightarrow>
                if node_type firstChild \<noteq> TEXT \<or> node_type secondChild \<noteq> TEXT then False
                else (let bulletChar = trim (node_characters firstChild)
                      in length bulletChar = 1 \<and> bulletChar \<in> fst ` set bulletCharacterMap)
            | _ \<Rightarrow> False))"

subsection \<open>Leaves: images, shapes, text\<close>

definition altName :: "Node \<Rightarrow> jsstring" where
  "altName node = (if node_name node = [] then S ''Image'' else node_name node)"

definition renderImagePlaceholder :: "Host \<Rightarrow> Node \<Rightarrow> rat \<Rightarrow> jsstring" where
  \<open>renderImagePlaceholder host node parentWidth =
     (if node_width node < 1 \<or> node_height node < 1 then []
      else (let w = Math_round (node_width node);
                h = Math_round (node_height node);
                finalWidth = max 1 (min (of_int w) parentWidth);
                url = S ''https://placehold.co/'' @ numStr host finalWidth @ S ''x'' @ intStr h
                      @ S ''/EFEFEF/7F7F7F?text=''
                      @ encodeURIComponent host (numStr host finalWidth @ S '' x '' @ intStr h)
            in S ''<img src="'' @ url @ S ''" width="'' @ numStr host finalWidth @ S ''" alt="''
               @ altName node
               @ S ''" style="display: block; border: 0; width: 100%; max-width: ''
               @ numStr host finalWidth @ S ''px; height: auto;" />''))\<close>

definition styleAttrOf :: "jsstring \<Rightarrow> jsstring" where
  \<open>styleAttrOf styles = (if styles = [] then [] else S ''style="'' @ styles @ S ''"'')\<close>

definition bgcolorAttrOf :: "jsstring option \<Rightarrow> jsstring" where
  \<open>bgcolorAttrOf bgColorHex =
     (case bgColorHex of None \<Rightarrow> [] | Some h \<Rightarrow> S ''bgcolor="'' @ h @ S ''"'')\<close>

definition backgroundDecl :: "jsstring option \<Rightarrow> jsstring option" where
  "backgroundDecl bgColorHex =
     (case bgColorHex of None \<Rightarrow> None | Some h \<Rightarrow> Some (S ''background-color:'' @ h))"

definition renderShape :: "Node \<Rightarrow> rat \<Rightarrow> RgbColor \<Rightarrow> jsstring" where
  \<open>renderShape node parentWidth parentBgColor =
     (if node_width node < 1 \<or> node_height node < 1 then []
      else (let bgColorHex = hex (getEffectiveBackgroundColor node parentBgColor);
                finalHeight = Math_round (node_height node);
                cellStyles = sanitizeStyles (cleanZeroValueStyles (joinWith (S '';'') (filterBoolean
                   [backgroundDecl bgColorHex,
                    Some (S ''height:'' @ intStr finalHeight @ S ''px;''),
                    Some (S ''font-size:1px;''),
                    Some (S ''line-height:1px;''),
                    getBorderStyles node])));
                bgColorAttr = bgcolorAttrOf bgColorHex;
                styleAttr = styleAttrOf cellStyles
            in S ''<table width="100%" height="'' @ intStr finalHeight
               @ S ''" cellpadding="0" cellspacing="0" border="0" role="presentation"><tr><td ''
               @ bgColorAttr @ S '' '' @ styleAttr @ S ''>&nbsp;</td></tr></table>''))\<close>

definition styleObjectToInlineCss :: "Segment \<Rightarrow> RgbColor \<Rightarrow> jsstring" where
  "styleObjectToInlineCss style parentBgColor =
     (let colorStyles =
            (if seg_fills style \<noteq> []
             then (case hex (getEffectiveBackgroundColorForFills (seg_fills style) parentBgColor) of
                     Some colorHex \<Rightarrow> [S ''color: '' @ colorHex]
                   | None \<Rightarrow> [])
             else []);
          fontStyles =
            (case seg_fontName style of
               Some fontName \<Rightarrow>
                 [S ''font-family: '' @ [39] @ font_family fontName @ [39] @ S '', sans-serif'']
                 @ (if isBold (font_style fontName) then [S ''font-weight: 700''] else [])
             | None \<Rightarrow> []);
          sizeStyles =
            (if seg_fontSize style \<noteq> 0
             then [S ''font-size: '' @ intStr (Math_round (seg_fontSize style)) @ S ''px'']
             else []);
          lineStyles =
            (case seg_lineHeight style of
               LineHeightPixels v \<Rightarrow> [S ''line-height: '' @ intStr (Math_round v) @ S ''px'']
             | LineHeightPercent v \<Rightarrow> [S ''line-height: '' @ intStr (Math_round v) @ S ''%'']
             | LineHeightAuto \<Rightarrow> []);
          decorationStyles =
            (case seg_textDecoration style of
               DecorationStrikethrough \<Rightarrow> [S ''text-decoration: line-through'']
             | DecorationUnderline \<Rightarrow> [S ''text-decoration: underline'']
             | DecorationNone \<Rightarrow> [])
      in sanitizeStyles (cleanZeroValueStyles (joinWith (S '';'')
           (colorStyles @ fontStyles @ sizeStyles @ lineStyles @ decorationStyles))))"

text \<open>The body of the \<open>for\<close> loop of \<open>renderTextContent\<close>: what one segment appends.\<close>

definition renderSegment :: "Host \<Rightarrow> RgbColor \<Rightarrow> Segment \<Rightarrow> jsstring" where
  \<open>renderSegment host parentBgColor segment =
     (if seg_fontName segment = None then []
      else (let styleCss = styleObjectToInlineCss segment parentBgColor;
                sanitizedChars = sanitizeChars (seg_characters segment);
                finalContent = bulletOr host (trim sanitizedChars) sanitizedChars
            in if styleCss \<noteq> []
               then S ''<span style="'' @ styleCss @ S ''">'' @ finalContent @ S ''</span>''
               else finalContent))\<close>

definition renderTextContent :: "Host \<Rightarrow> Node \<Rightarrow> RgbColor \<Rightarrow> jsstring" where
  "renderTextContent host node parentBgColor =
     (if trim (node_characters node) = [] then []
      else concat (map (renderSegment host parentBgColor) (n_segments (props node))))"

definition textTable :: "jsstring \<Rightarrow> jsstring \<Rightarrow> jsstring \<Rightarrow> jsstring" where
  \<open>textTable alignAttr styleAttr content =
     S ''<table cellpadding="0" cellspacing="0" border="0" role="presentation" width="100%"><tr><td ''
     @ alignAttr @ S '' '' @ styleAttr @ S ''>'' @ content @ S ''</td></tr></table>''\<close>

definition renderText :: "Host \<Rightarrow> Node \<Rightarrow> RgbColor \<Rightarrow> jsstring" where
  \<open>renderText host node parentBgColor =
     (if trim (node_characters node) = [] then []
      else (let textAlign = textAlignLower (n_textAlignHorizontal (props node));
                alignAttr = (if textAlign \<noteq> S ''left'' then S ''align="'' @ textAlign @ S ''"'' else []);
                segments = n_segments (props node)
            in case segments of
                 [segment] \<Rightarrow>
                   if seg_fontName segment = None then []
                   else (let styleCss = styleObjectToInlineCss segment parentBgColor;
                             borderStyles = getBorderStyles node;
                             textAlignStyle = S ''text-align: '' @ textAlign @ S '';'';
                             allStyles = sanitizeStyles (joinWith (S '';'')
                               (filterBoolean [Some textAlignStyle, Some styleCss, borderStyles]));
                             styleAttr = styleAttrOf allStyles;
                             sanitizedChars = sanitizeChars (node_characters node)
                         in textTable alignAttr styleAttr sanitizedChars)
               | _ \<Rightarrow>
                   (let contentHtml = renderTextContent host node parentBgColor in
                    if contentHtml = [] then []
                    else (let containerStyles = sanitizeStyles (cleanZeroValueStyles
                                (joinWith (S '';'') (filterBoolean [getBorderStyles node])));
                              textAlignStyle = S ''text-align: '' @ textAlign @ S '';'';
                              finalTdStyle = (if containerStyles \<noteq> []
                                              then containerStyles @ S '';'' @ textAlignStyle
                                              else textAlignStyle);
                              styleAttr = styleAttrOf finalTdStyle
                          in textTable alignAttr styleAttr contentHtml))))\<close>

text \<open>
  \<open>renderBulletPoint\<close> reads \<open>node.children[0]\<close> and \<open>node.children[1]\<close>; it is called
  only where \<open>isBulletPoint\<close> has found exactly two children.
\<close>

definition renderBulletPoint :: "Host \<Rightarrow> Node \<Rightarrow> rat \<Rightarrow> RgbColor \<Rightarrow> jsstring" where
  \<open>renderBulletPoint host node parentWidth parentBgColor =
     (case children node of
        bulletNode # textNode # others \<Rightarrow>
          (let itemSpacing = (case n_itemSpacing (props node) of Some v \<Rightarrow> v | None \<Rightarrow> 8);
               bulletHtml = renderTextContent host bulletNode parentBgColor;
               textHtml = renderTextContent host textNode parentBgColor
           in S ''<table width="100%" border="0" cellpadding="0" cellspacing="0" role="presentation"><tr><td style="width:1%;" valign="top">''
              @ bulletHtml @ S ''</td><td width="'' @ numStr host itemSpacing
              @ S ''">&nbsp;</td><td valign="top">'' @ textHtml @ S ''</td></tr></table>'')
      | _ \<Rightarrow> [])\<close>

text \<open>
  \<open>renderCta\<close> looks its shape and its text up with \<open>children.find\<close>; it is called only
  where \<open>isPotentialCta\<close> has found both.  The text is \<open>${textNode.characters}\<close>.
\<close>

definition renderCta :: "Host \<Rightarrow> Node \<Rightarrow> RgbColor \<Rightarrow> jsstring" where
  \<open>renderCta host node parentBgColor =
     (case (find (\<lambda>n. node_type n = RECTANGLE \<or> node_type n = ELLIPSE) (children node),
            find (\<lambda>n. node_type n = TEXT) (children node)) of
        (Some shapeNode, Some textNode) \<Rightarrow>
          (case (n_fontName (props textNode), n_fontSize (props textNode)) of
             (Some fontName, Some fontSize) \<Rightarrow>
               (let bgColor = hex (getEffectiveBackgroundColor shapeNode parentBgColor);
                    finalBgColor = (case bgColor of None \<Rightarrow> S ''#6D28D9'' | Some h \<Rightarrow> h);
                    borderRadius = (case n_cornerRadius (props shapeNode) of Some v \<Rightarrow> v | None \<Rightarrow> 6);
                    textColor = hex (getEffectiveBackgroundColor textNode (Rgb 0 0 0));
                    finalTextColor = (case textColor of None \<Rightarrow> S ''#FFFFFF'' | Some h \<Rightarrow> h);
                    fontWeight = (if isBold (font_style fontName) then S ''700'' else S ''400'');
                    finalFontSize = Math_round fontSize;
                    href = S ''#''
                in S ''<table border="0" cellpadding="0" cellspacing="0" role="presentation"><tr><td align="center" style="border-radius: ''
                   @ numStr host borderRadius @ S ''px; background-color: '' @ finalBgColor
                   @ S '';" bgcolor="'' @ finalBgColor @ S ''"><a href="'' @ href
                   @ S ''" target="_blank" style="font-family: '' @ [39] @ font_family fontName @ [39]
                   @ S '', Arial, sans-serif; font-size: '' @ intStr finalFontSize
                   @ S ''px; font-weight: '' @ fontWeight @ S ''; color: '' @ finalTextColor
                   @ S ''; text-decoration: none; padding: 12px 24px; border-radius: ''
                   @ numStr host borderRadius @ S ''px; display: inline-block;">''
                   @ node_characters textNode @ S ''</a></td></tr></table>'')
           | _ \<Rightarrow> [])
      | _ \<Rightarrow> [])\<close>

subsection \<open>Containers\<close>

definition roundOrZero :: "rat option \<Rightarrow> int" where
  "roundOrZero v = (case v of Some a \<Rightarrow> Math_round a | None \<Rightarrow> 0)"

definition isContainerType :: "NodeType \<Rightarrow> bool" where
  "isContainerType t = (t \<in> set [FRAME, GROUP, COMPONENT, INSTANCE])"

text \<open>The filler row that \<open>renderStackedChildren\<close> pushes for a vertical gap.\<close>

definition gapRow :: "int \<Rightarrow> jsstring" where
  \<open>gapRow verticalGap =
     S ''<tr><td height="'' @ intStr verticalGap @ S ''" style="font-size:'' @ intStr verticalGap
     @ S ''px; line-height:'' @ intStr verticalGap @ S ''px;" colspan="3">&nbsp;</td></tr>''\<close>

definition gutterCell :: "int \<Rightarrow> jsstring" where
  \<open>gutterCell padding =
     (if padding > 0
      then S ''<td class="gutter" width="'' @ intStr padding @ S ''">&nbsp;</td>''
      else [])\<close>

definition contentRow :: "int \<Rightarrow> int \<Rightarrow> jsstring \<Rightarrow> jsstring" where
  "contentRow paddingLeft paddingRight childHtml =
     S ''<tr>'' @ gutterCell paddingLeft @ S ''<td>'' @ childHtml @ S ''</td>''
     @ gutterCell paddingRight @ S ''</tr>''"

definition stackedTable :: "jsstring list \<Rightarrow> jsstring" where
  \<open>stackedTable rows =
     S ''<table width="100%" border="0" cellpadding="0" cellspacing="0" role="presentation">''
     @ concat rows @ S ''</table>''\<close>

text \<open>
  The array that \<open>renderStackedChildren\<close> iterates over: the visible children, sorted by
  \<open>y\<close> (\<open>Array.prototype.sort\<close> is stable) unless the node has no \<open>layoutMode\<close> or
  stacks vertically by auto-layout.
\<close>

definition stackedChildrenOf :: "Node \<Rightarrow> Node list" where
  "stackedChildrenOf parentNode =
     (let children = filter node_visible (children parentNode)
      in if node_layoutMode parentNode \<noteq> None \<and> node_layoutMode parentNode \<noteq> Some LayoutVertical
         then sort_key node_y children else children)"

definition horizontalChildrenOf :: "Node \<Rightarrow> Node list" where
  "horizontalChildrenOf node = filter node_visible (children node)"

definition paddingRow :: "int \<Rightarrow> jsstring" where
  \<open>paddingRow padding =
     (if padding > 0
      then S ''<tr><td height="'' @ intStr padding @ S ''" style="font-size:'' @ intStr padding
           @ S ''px; line-height:'' @ intStr padding @ S ''px;">&nbsp;</td></tr>''
      else [])\<close>

text \<open>The markup that \<open>renderContainer\<close> returns around the rendered children.\<close>

definition containerTable ::
    "Host \<Rightarrow> Node \<Rightarrow> rat \<Rightarrow> jsstring option \<Rightarrow> bool \<Rightarrow> jsstring \<Rightarrow> jsstring" where
  \<open>containerTable host node parentWidth bgColorHex isRoot innerHtml =
     (let nodeWidth = Math_round (node_width node);
          finalWidth = (if isRoot then 600 else min (of_int nodeWidth) parentWidth);
          isFluid = (\<not> isRoot \<and> (quotientExceeds host (of_int nodeWidth) parentWidth (95 / 100)
                                   \<or> nodeWidth > 450));
          tableStyles = sanitizeStyles (cleanZeroValueStyles (joinWith (S '';'')
            (filterBoolean [backgroundDecl bgColorHex, getBorderStyles node])));
          tableStyleAttr = styleAttrOf tableStyles;
          tableBgColorAttr = bgcolorAttrOf bgColorHex;
          tableWidthAttr =
            (if isRoot then S ''width="'' @ numStr host finalWidth @ S ''"''
             else if isFluid then S ''width="100%"''
             else S ''width="'' @ numStr host finalWidth @ S ''"'');
          className = (if isRoot then S ''class="wrapper"'' else []);
          paddingTop = roundOrZero (n_paddingTop (props node));
          paddingBottom = roundOrZero (n_paddingBottom (props node));
          finalInnerHtml = [10] @ S ''      '' @ paddingRow paddingTop @ [10] @ S ''      ''
            @ (if innerHtml \<noteq> [] then S ''<tr><td>'' @ innerHtml @ S ''</td></tr>'' else [])
            @ S '' '' @ [10] @ S ''      '' @ paddingRow paddingBottom @ [10] @ S ''    ''
      in S ''<table '' @ className @ S '' '' @ tableWidthAttr @ S '' '' @ tableBgColorAttr @ S '' ''
         @ tableStyleAttr
         @ S '' cellpadding="0" cellspacing="0" border="0" role="presentation">''
         @ finalInnerHtml @ S ''</table>'')\<close>

definition containerInnerWidth :: "Node \<Rightarrow> rat \<Rightarrow> bool \<Rightarrow> rat" where
  "containerInnerWidth node parentWidth isRoot =
     (if isRoot then 600 else min (of_int (Math_round (node_width node))) parentWidth)"

definition horizontalWidthAttr :: "Host \<Rightarrow> Node \<Rightarrow> nat \<Rightarrow> rat \<Rightarrow> jsstring" where
  \<open>horizontalWidthAttr host child count totalContentWidth =
     (let colWidth = Math_round (node_width child)
      in if isImageLikeNode child then S ''width="'' @ intStr colWidth @ S ''"''
         else if isContainerType (node_type child) \<and> count > 1
         then S ''width="'' @ percentToFixed2 host (of_int colWidth) totalContentWidth @ S ''%"''
         else [])\<close>

definition horizontalCell :: "jsstring \<Rightarrow> jsstring \<Rightarrow> jsstring" where
  \<open>horizontalCell widthAttr childHtml =
     S ''<td'' @ (if widthAttr \<noteq> [] then S '' '' @ widthAttr else [])
     @ S '' valign="top">'' @ childHtml @ S ''</td>''\<close>

definition spacerCell :: "int \<Rightarrow> jsstring" where
  \<open>spacerCell itemSpacing =
     S ''<td width="'' @ intStr itemSpacing
     @ S ''" style="font-size:0; line-height:0;">&nbsp;</td>''\<close>

definition horizontalTable :: "jsstring list \<Rightarrow> jsstring" where
  \<open>horizontalTable cells =
     S ''<table width="100%" border="0" cellpadding="0" cellspacing="0" role="presentation"><tr>''
     @ concat cells @ S ''</tr></table>''\<close>

lemma size_list_insort_key:
  "size_list f (insort_key k a xs) = Suc (f a + size_list f xs)"
  by (induction xs) auto

lemma size_list_sort_key: "size_list f (sort_key k xs) = size_list f xs"
  by (induction xs) (auto simp: size_list_insort_key)

lemma size_list_filter_le: "size_list f (filter P xs) \<le> size_list f xs"
  by (induction xs) auto

lemma size_stackedChildrenOf: "size_list size (stackedChildrenOf node) < size node"
proof -
  have "size_list size (stackedChildrenOf node) \<le> size_list size (children node)"
    by (simp add: stackedChildrenOf_def Let_def size_list_sort_key size_list_filter_le)
  moreover have "size_list size (children node) < size node"
    by (cases node) simp
  ultimately show ?thesis by simp
qed

lemma size_horizontalChildrenOf: "size_list size (horizontalChildrenOf node) < size node"
proof -
  have "size_list size (horizontalChildrenOf node) \<le> size_list size (children node)"
    by (simp add: horizontalChildrenOf_def size_list_filter_le)
  moreover have "size_list size (children node) < size node"
    by (cases node) simp
  ultimately show ?thesis by simp
qed

text \<open>
  \<open>renderNode\<close> and the functions it is mutually recursive with.  \<open>stackedLoop\<close> and
  \<open>horizontalLoop\<close> are the \<open>for\<close> statements of \<open>renderStackedChildren\<close> and
  \<open>renderHorizontalChildren\<close>, returning what they push to \<open>rows\<close> and \<open>cells\<close>;
  \<open>index < children.length - 1\<close> is the test that children remain.
\<close>

function
  renderNode :: "Host \<Rightarrow> jsstring list \<Rightarrow> Node \<Rightarrow> rat \<Rightarrow> RgbColor \<Rightarrow> jsstring" and
  renderContainer ::
    "Host \<Rightarrow> jsstring list \<Rightarrow> Node \<Rightarrow> rat \<Rightarrow> RgbColor \<Rightarrow> bool \<Rightarrow> jsstring" and
  renderStackedChildren ::
    "Host \<Rightarrow> jsstring list \<Rightarrow> Node \<Rightarrow> rat \<Rightarrow> RgbColor \<Rightarrow> jsstring" and
  renderHorizontalChildren ::
    "Host \<Rightarrow> jsstring list \<Rightarrow> Node \<Rightarrow> rat \<Rightarrow> RgbColor \<Rightarrow> jsstring" and
  stackedLoop ::
    "Host \<Rightarrow> jsstring list \<Rightarrow> int \<Rightarrow> int \<Rightarrow> rat \<Rightarrow> RgbColor \<Rightarrow> rat \<Rightarrow> Node list
      \<Rightarrow> jsstring list" and
  horizontalLoop ::
    "Host \<Rightarrow> jsstring list \<Rightarrow> int \<Rightarrow> nat \<Rightarrow> rat \<Rightarrow> RgbColor \<Rightarrow> Node list \<Rightarrow> jsstring list"
where
  "renderNode host confirmedCtaIds node parentWidth parentBgColor =
     (if \<not> node_visible node then []
      else if isContainerType (node_type node)
      then (if isIconGroup node then renderImagePlaceholder host node parentWidth
            else if isBulletPoint node then renderBulletPoint host node parentWidth parentBgColor
            else if node_id node \<in> set confirmedCtaIds \<and> isPotentialCta node
            then renderCta host node parentBgColor
            else renderContainer host confirmedCtaIds node parentWidth parentBgColor False)
      else if node_type node = RECTANGLE \<or> node_type node = ELLIPSE
      then (if hasImageFill node then renderImagePlaceholder host node parentWidth
            else renderShape node parentWidth parentBgColor)
      else if node_type node = TEXT then renderText host node parentBgColor
      else if node_type node = VECTOR \<or> node_type node = LINE
      then renderImagePlaceholder host node parentWidth
      else [])"
| "renderContainer host confirmedCtaIds node parentWidth parentBgColor isRoot =
     (let children = filter node_visible (children node);
          eff = getEffectiveBackgroundColor node parentBgColor;
          bgColorHex = hex eff;
          effectiveBgRgb = rgb eff
      in if children = [] \<and> bgColorHex = None \<and> getBorderStyles node = None then []
         else (let finalWidth = containerInnerWidth node parentWidth isRoot;
                   innerHtml =
                     (if node_layoutMode node = Some LayoutHorizontal
                      then renderHorizontalChildren host confirmedCtaIds node finalWidth effectiveBgRgb
                      else renderStackedChildren host confirmedCtaIds node finalWidth effectiveBgRgb)
               in containerTable host node parentWidth bgColorHex isRoot innerHtml))"
| "renderStackedChildren host confirmedCtaIds parentNode parentWidth parentBgColor =
     (let lastBottomY = (case n_paddingTop (props parentNode) of Some v \<Rightarrow> v | None \<Rightarrow> 0);
          paddingLeft = roundOrZero (n_paddingLeft (props parentNode));
          paddingRight = roundOrZero (n_paddingRight (props parentNode));
          availableWidth = numberSub host (numberSub host parentWidth (of_int paddingLeft))
                             (of_int paddingRight)
      in stackedTable (stackedLoop host confirmedCtaIds paddingLeft paddingRight availableWidth
           parentBgColor lastBottomY (stackedChildrenOf parentNode)))"
| "renderHorizontalChildren host confirmedCtaIds node parentWidth parentBgColor =
     (let itemSpacing = roundOrZero (n_itemSpacing (props node));
          totalChildWidth = foldl (numberAdd host) 0 (map node_width (horizontalChildrenOf node));
          totalSpacing = numberMul host (of_int itemSpacing)
                           (of_nat (length (horizontalChildrenOf node)) - 1);
          totalContentWidth = numberAdd host totalChildWidth totalSpacing
      in horizontalTable (horizontalLoop host confirmedCtaIds itemSpacing
           (length (horizontalChildrenOf node)) totalContentWidth parentBgColor
           (horizontalChildrenOf node)))"
| "stackedLoop host confirmedCtaIds paddingLeft paddingRight availableWidth parentBgColor
     lastBottomY [] = []"
| "stackedLoop host confirmedCtaIds paddingLeft paddingRight availableWidth parentBgColor
     lastBottomY (child # rest) =
     (let verticalGap = Math_round (numberSub host (node_y child) lastBottomY);
          childHtml = renderNode host confirmedCtaIds child availableWidth parentBgColor
      in (if verticalGap > 2 then [gapRow verticalGap] else [])
         @ (if childHtml \<noteq> [] then [contentRow paddingLeft paddingRight childHtml] else [])
         @ stackedLoop host confirmedCtaIds paddingLeft paddingRight availableWidth parentBgColor
             (numberAdd host (node_y child) (node_height child)) rest)"
| "horizontalLoop host confirmedCtaIds itemSpacing count totalContentWidth parentBgColor [] = []"
| "horizontalLoop host confirmedCtaIds itemSpacing count totalContentWidth parentBgColor
     (child # rest) =
     (let colWidth = Math_round (node_width child);
          widthAttr = horizontalWidthAttr host child count totalContentWidth;
          childHtml = renderNode host confirmedCtaIds child (of_int colWidth) parentBgColor
      in [horizontalCell widthAttr childHtml]
         @ (if rest \<noteq> [] \<and> itemSpacing > 0 then [spacerCell itemSpacing] else [])
         @ horizontalLoop host confirmedCtaIds itemSpacing count totalContentWidth parentBgColor
             rest)"
  by pat_completeness auto

termination
proof (relation "measure (\<lambda>v. case v of
    Inl (Inl (host, conf, node, pw, bg)) \<Rightarrow> 4 * size node + 3
  | Inl (Inr (Inl (host, conf, node, pw, bg, isRoot))) \<Rightarrow> 4 * size node + 2
  | Inl (Inr (Inr (host, conf, node, pw, bg))) \<Rightarrow> 4 * size node + 1
  | Inr (Inl (host, conf, node, pw, bg)) \<Rightarrow> 4 * size node + 1
  | Inr (Inr (Inl (host, conf, pl, pr, aw, bg, lb, cs))) \<Rightarrow> 4 * size_list size cs
  | Inr (Inr (Inr (host, conf, sp, cnt, tw, bg, cs))) \<Rightarrow> 4 * size_list size cs)",
    goal_cases)
  case 1
  show ?case by simp
next
  case 2
  show ?case by simp
next
  case 3
  show ?case by simp
next
  case 4
  show ?case by simp
next
  case (5 host conf parentNode)
  show ?case using size_stackedChildrenOf [of parentNode] by simp
next
  case (6 host conf node)
  show ?case using size_horizontalChildrenOf [of node] by simp
next
  case 7
  show ?case by simp
next
  case 8
  show ?case by simp
next
  case 9
  show ?case by simp
next
  case 10
  show ?case by simp
qed

section \<open>The renderer with image export modes (\<^verbatim>\<open>src/unnamed/part_000\<close>)\<close>

datatype ImageExportMode = Placeholder | Base64 | Download

record ImageAsset =
  asset_name :: jsstring
  asset_data :: "nat list"

text \<open>The two fields of \<open>FigmaPluginParser\<close>, threaded through the render functions.\<close>

record ParserState =
  imageAssets :: "ImageAsset list"
  imageCounter :: nat

subsection \<open>Borders and backgrounds\<close>

fun findParentBackgroundColorLoop_x :: "FillsProp list \<Rightarrow> RgbColor" where
  "findParentBackgroundColorLoop_x [] = Rgb 1 1 1"
| "findParentBackgroundColorLoop_x (parentFills # rest) =
     (case parentFills of
        Fills fs \<Rightarrow>
          (case find (\<lambda>f. (case f of SolidPaint c opac v \<Rightarrow> True
                                 | GradientPaint c a v \<Rightarrow> True | _ \<Rightarrow> False)
                             \<and> paintVisible f) fs of
             Some (SolidPaint color opac v) \<Rightarrow>
               if orOne opac \<ge> 99 / 100 then color else findParentBackgroundColorLoop_x rest
           | Some (GradientPaint color a v) \<Rightarrow>
               if orOne a \<ge> 99 / 100 then color else findParentBackgroundColorLoop_x rest
           | _ \<Rightarrow> findParentBackgroundColorLoop_x rest)
      | _ \<Rightarrow> findParentBackgroundColorLoop_x rest)"

definition findParentBackgroundColor_x :: "Node \<Rightarrow> RgbColor" where
  "findParentBackgroundColor_x node = findParentBackgroundColorLoop_x (n_parentFills (props node))"

definition getBorderStyles_x :: "Node \<Rightarrow> jsstring option" where
  "getBorderStyles_x node =
     (case (n_strokes (props node), n_strokeWeight (props node)) of
        (Some strokes, Some strokeWeight) \<Rightarrow>
          if strokes = [] \<or> strokeWeight = 0 then None
          else (case find (\<lambda>s. paintVisible s \<and> isSolid s) strokes of
                  Some stroke \<Rightarrow>
                    (let weight = Math_round strokeWeight in
                     if weight = 0 then None
                     else (let parentBg = findParentBackgroundColor_x node;
                               colorHex = hex (getEffectiveBackgroundColorForFills_x [stroke] parentBg)
                           in Some (S ''border: '' @ intStr weight @ S ''px solid ''
                                    @ (case colorHex of None \<Rightarrow> S ''#000000'' | Some h \<Rightarrow> h)
                                    @ S '';'')))
                | None \<Rightarrow> None)
      | _ \<Rightarrow> None)"

definition getEffectiveBackgroundColor_x :: "Node \<Rightarrow> RgbColor \<Rightarrow> EffectiveColor" where
  "getEffectiveBackgroundColor_x node parentBgColor =
     (case node_fills node of
        NoFills \<Rightarrow> getEffectiveBackgroundColorForFills_x [] parentBgColor
      | Fills fs \<Rightarrow> getEffectiveBackgroundColorForFills_x fs parentBgColor
      | MixedFills \<Rightarrow> \<lparr>hex = None, rgb = parentBgColor\<rparr>)"

subsection \<open>Classification\<close>

fun isImageLikeNode_x :: "Node \<Rightarrow> bool" where
  "isImageLikeNode_x (Node p cs) =
     (if (n_type p = RECTANGLE \<or> n_type p = ELLIPSE) \<and> hasImageFill (Node p cs) then True
      else if n_type p \<in> set [VECTOR, LINE] then True
      else if cs \<noteq> []
      then list_all (\<lambda>child. node_type child \<noteq> TEXT \<and> isImageLikeNode_x child) cs
      else False)"

subsection \<open>Leaves: images, shapes, text\<close>

definition imgTag :: "Host \<Rightarrow> jsstring \<Rightarrow> rat \<Rightarrow> jsstring \<Rightarrow> jsstring" where
  \<open>imgTag host src finalWidth altText =
     S ''<img src="'' @ src @ S ''" width="'' @ numStr host finalWidth @ S ''" alt="'' @ altText
     @ S ''" style="display: block; border: 0; width: 100%; max-width: '' @ numStr host finalWidth
     @ S ''px; height: auto;" />''\<close>

definition imageName :: "nat \<Rightarrow> jsstring" where
  "imageName counter = S ''image-'' @ intStr (int counter) @ S ''.png''"

definition exportError :: "jsstring \<Rightarrow> jsstring" where
  \<open>exportError altText = S ''<p style="color:red;">Error exporting image: '' @ altText @ S ''</p>''\<close>

text \<open>
  \<open>renderImage\<close>.  The \<open>try\<close> block awaits \<open>node.exportAsync\<close>; a rejection is the
  \<open>None\<close> of the host's export and goes to the \<open>catch\<close> clause.
\<close>

definition renderImage ::
    "Host \<Rightarrow> Node \<Rightarrow> rat \<Rightarrow> ImageExportMode \<Rightarrow> ParserState \<Rightarrow> jsstring \<times> ParserState" where
  \<open>renderImage host node parentWidth mode st =
     (if node_width node < 1 \<or> node_height node < 1 then ([], st)
      else (let finalWidth = min (of_int (Math_round (node_width node))) parentWidth;
                altText = altName node
            in if mode = Placeholder
               then (let url = S ''https://placehold.co/'' @ numStr host finalWidth @ S ''x''
                           @ intStr (Math_round (node_height node)) @ S ''/EFEFEF/7F7F7F?text=''
                           @ numStr host finalWidth @ S ''x'' @ intStr (Math_round (node_height node))
                     in (imgTag host url finalWidth altText, st))
               else (case exportAsync host node (Math_round (node_width node * 2)) of
                       None \<Rightarrow> (exportError altText, st)
                     | Some imageBytes \<Rightarrow>
                         if mode = Base64
                         then (imgTag host (S ''data:image/png;base64,'' @ base64Encode host imageBytes)
                                 finalWidth altText, st)
                         else if mode = Download
                         then (let counter = imageCounter st + 1;
                                   imageName = imageName counter
                               in (imgTag host (S ''images/'' @ imageName) finalWidth altText,
                                   \<lparr>imageAssets = imageAssets st
                                       @ [\<lparr>asset_name = imageName, asset_data = imageBytes\<rparr>],
                                     imageCounter = counter\<rparr>))
                         else ([], st))))\<close>

definition renderShape_x :: "Node \<Rightarrow> RgbColor \<Rightarrow> jsstring" where
  \<open>renderShape_x node parentBgColor =
     (if node_width node < 1 \<or> node_height node < 1 then []
      else (let bgColorHex = hex (getEffectiveBackgroundColor_x node parentBgColor);
                finalHeight = Math_round (node_height node);
                cellStyles = sanitizeStyles_x (cleanZeroValueStyles_x (joinWith (S '';'') (filterBoolean
                   [backgroundDecl bgColorHex,
                    Some (S ''height:'' @ intStr finalHeight @ S ''px;''),
                    Some (S ''font-size:1px;''),
                    Some (S ''line-height:1px;''),
                    getBorderStyles_x node])))
            in S ''<table width="100%" height="'' @ intStr finalHeight
               @ S ''" cellpadding="0" cellspacing="0" border="0"><tr><td ''
               @ bgcolorAttrOf bgColorHex @ S '' '' @ styleAttrOf cellStyles
               @ S ''>&nbsp;</td></tr></table>''))\<close>

definition styleObjectToInlineCss_x :: "Segment \<Rightarrow> RgbColor \<Rightarrow> jsstring" where
  "styleObjectToInlineCss_x style parentBgColor =
     (let colorStyles =
            (if seg_fills style \<noteq> []
             then (case hex (getEffectiveBackgroundColorForFills_x (seg_fills style) parentBgColor) of
                     Some colorHex \<Rightarrow> [S ''color: '' @ colorHex]
                   | None \<Rightarrow> [])
             else []);
          fontStyles =
            (case seg_fontName style of
               Some fontName \<Rightarrow>
                 if font_family fontName \<noteq> []
                 then [S ''font-family: '' @ [39] @ font_family fontName @ [39] @ S '', sans-serif'']
                      @ (if isBold (font_style fontName) then [S ''font-weight: 700''] else [])
                 else []
             | None \<Rightarrow> []);
          sizeStyles =
            (if seg_fontSize style \<noteq> 0
             then [S ''font-size: '' @ intStr (Math_round (seg_fontSize style)) @ S ''px'']
             else []);
          lineStyles =
            (case seg_lineHeight style of
               LineHeightPixels v \<Rightarrow> [S ''line-height: '' @ intStr (Math_round v) @ S ''px'']
             | LineHeightPercent v \<Rightarrow> [S ''line-height: '' @ intStr (Math_round v) @ S ''%'']
             | LineHeightAuto \<Rightarrow> []);
          decorationStyles =
            (if seg_textDecoration style = DecorationUnderline
             then [S ''text-decoration: underline''] else [])
      in sanitizeStyles_x (cleanZeroValueStyles_x (joinWith (S '';'')
           (colorStyles @ fontStyles @ sizeStyles @ lineStyles @ decorationStyles))))"

definition renderSegment_x :: "Host \<Rightarrow> RgbColor \<Rightarrow> Segment \<Rightarrow> jsstring" where
  \<open>renderSegment_x host parentBgColor segment =
     (if seg_fontName segment = None then []
      else (let styleCss = styleObjectToInlineCss_x segment parentBgColor;
                sanitizedChars = sanitizeChars (seg_characters segment);
                finalContent = bulletOr host (trim sanitizedChars) sanitizedChars
            in if styleCss \<noteq> []
               then S ''<span style="'' @ styleCss @ S ''">'' @ finalContent @ S ''</span>''
               else finalContent))\<close>

definition renderTextContent_x :: "Host \<Rightarrow> Node \<Rightarrow> RgbColor \<Rightarrow> jsstring" where
  "renderTextContent_x host node parentBgColor =
     (if trim (node_characters node) = [] then []
      else concat (map (renderSegment_x host parentBgColor) (n_segments (props node))))"

definition renderText_x :: "Host \<Rightarrow> Node \<Rightarrow> RgbColor \<Rightarrow> jsstring" where
  \<open>renderText_x host node parentBgColor =
     (if trim (node_characters node) = [] then []
      else (let textAlign = textAlignLower (n_textAlignHorizontal (props node));
                contentHtml = renderTextContent_x host node parentBgColor;
                containerStyles = sanitizeStyles_x (cleanZeroValueStyles_x
                  (joinWith (S '';'') (filterBoolean [getBorderStyles_x node])));
                finalTdStyle = (if containerStyles \<noteq> [] then containerStyles @ S '';'' else [])
                  @ S ''text-align: '' @ textAlign @ S '';''
            in S ''<table cellpadding="0" cellspacing="0" border="0" width="100%"><tr><td align="''
               @ textAlign @ S ''" style="'' @ finalTdStyle @ S ''">'' @ contentHtml
               @ S ''</td></tr></table>''))\<close>

definition renderBulletPoint_x :: "Host \<Rightarrow> Node \<Rightarrow> RgbColor \<Rightarrow> jsstring" where
  \<open>renderBulletPoint_x host node parentBgColor =
     (case children node of
        bulletNode # textNode # others \<Rightarrow>
          (let itemSpacing = (case n_itemSpacing (props node) of Some v \<Rightarrow> v | None \<Rightarrow> 8);
               bulletHtml = renderTextContent_x host bulletNode parentBgColor;
               textHtml = renderTextContent_x host textNode parentBgColor
           in S ''<table width="100%" border="0" cellpadding="0" cellspacing="0" role="presentation"><tr><td style="width:1%;" valign="top">''
              @ bulletHtml @ S ''</td><td width="'' @ numStr host itemSpacing
              @ S ''" style="width: '' @ numStr host itemSpacing
              @ S ''px;">&nbsp;</td><td valign="top">'' @ textHtml @ S ''</td></tr></table>'')
      | _ \<Rightarrow> [])\<close>

subsection \<open>Containers\<close>

definition gapRow_x :: "int \<Rightarrow> jsstring" where
  \<open>gapRow_x verticalGap =
     S ''<tr><td height="'' @ intStr verticalGap @ S ''" style="height:'' @ intStr verticalGap
     @ S ''px; font-size:'' @ intStr verticalGap @ S ''px; line-height:'' @ intStr verticalGap
     @ S ''px;" colspan="3">&nbsp;</td></tr>''\<close>

definition gutterCell_x :: "Host \<Rightarrow> rat \<Rightarrow> jsstring" where
  \<open>gutterCell_x host padding =
     (if padding > 0
      then S ''<td class="gutter" width="'' @ numStr host padding @ S ''" style="width: ''
           @ numStr host padding @ S ''px;">&nbsp;</td>''
      else [])\<close>

definition contentRow_x :: "Host \<Rightarrow> rat \<Rightarrow> rat \<Rightarrow> jsstring \<Rightarrow> jsstring" where
  "contentRow_x host paddingLeft paddingRight childHtml =
     S ''<tr>'' @ gutterCell_x host paddingLeft @ S ''<td>'' @ childHtml @ S ''</td>''
     @ gutterCell_x host paddingRight @ S ''</tr>''"

definition numberOrZero :: "rat option \<Rightarrow> rat" where
  "numberOrZero v = (case v of Some a \<Rightarrow> a | None \<Rightarrow> 0)"

text \<open>The markup that \<open>renderContainer\<close> returns around the rendered children.\<close>

definition containerTable_x ::
    "Host \<Rightarrow> Node \<Rightarrow> rat \<Rightarrow> jsstring option \<Rightarrow> bool \<Rightarrow> jsstring \<Rightarrow> jsstring" where
  \<open>containerTable_x host node parentWidth bgColorHex isRoot innerHtml =
     (let hasStyles = (bgColorHex \<noteq> None \<or> getBorderStyles_x node \<noteq> None);
          paddingTop = roundOrZero (n_paddingTop (props node));
          paddingBottom = roundOrZero (n_paddingBottom (props node))
      in if \<not> hasStyles \<and> paddingTop = 0 \<and> paddingBottom = 0 \<and> \<not> isRoot then innerHtml
         else (let tableStyles = sanitizeStyles_x (cleanZeroValueStyles_x (joinWith (S '';'')
                     (filterBoolean [backgroundDecl bgColorHex, getBorderStyles_x node])));
                   finalInnerHtml = paddingRow paddingTop
                     @ (if innerHtml \<noteq> [] then S ''<tr><td>'' @ innerHtml @ S ''</td></tr>'' else [])
                     @ paddingRow paddingBottom;
                   width = (if isRoot then parentWidth else min (node_width node) parentWidth)
               in S ''<table width="'' @ numStr host width @ S ''" '' @ bgcolorAttrOf bgColorHex
                  @ S '' '' @ styleAttrOf tableStyles
                  @ S '' cellpadding="0" cellspacing="0" border="0" role="presentation">''
                  @ finalInnerHtml @ S ''</table>''))\<close>

definition valignOf :: "Node \<Rightarrow> jsstring" where
  "valignOf node =
     (if n_counterAxisAlignItems (props node) = Some AlignMax then S ''bottom''
      else if n_counterAxisAlignItems (props node) = Some AlignCenter then S ''middle''
      else S ''top'')"

definition horizontalCell_x :: "jsstring \<Rightarrow> jsstring \<Rightarrow> jsstring" where
  \<open>horizontalCell_x valign childHtml =
     S ''<td valign="'' @ valign @ S ''">'' @ childHtml @ S ''</td>''\<close>

definition spacerCells_x :: "bool \<Rightarrow> int \<Rightarrow> jsstring list" where
  \<open>spacerCells_x isSpaceBetween itemSpacing =
     (if isSpaceBetween then [S ''<td width="100%">&nbsp;</td>'']
      else if itemSpacing > 0
      then [S ''<td width="'' @ intStr itemSpacing @ S ''" style="width: '' @ intStr itemSpacing
            @ S ''px;">&nbsp;</td>'']
      else [])\<close>

text \<open>
  \<open>renderNode\<close> and the functions it is mutually recursive with, each returning its
  markup and the parser's fields after it.
\<close>

function
  renderNode_x ::
    "Host \<Rightarrow> Node \<Rightarrow> rat \<Rightarrow> RgbColor \<Rightarrow> ImageExportMode \<Rightarrow> ParserState
      \<Rightarrow> jsstring \<times> ParserState" and
  renderContainer_x ::
    "Host \<Rightarrow> Node \<Rightarrow> rat \<Rightarrow> RgbColor \<Rightarrow> bool \<Rightarrow> ImageExportMode \<Rightarrow> ParserState
      \<Rightarrow> jsstring \<times> ParserState" and
  renderStackedChildren_x ::
    "Host \<Rightarrow> Node \<Rightarrow> rat \<Rightarrow> RgbColor \<Rightarrow> ImageExportMode \<Rightarrow> ParserState
      \<Rightarrow> jsstring \<times> ParserState" and
  renderHorizontalChildren_x ::
    "Host \<Rightarrow> Node \<Rightarrow> rat \<Rightarrow> RgbColor \<Rightarrow> ImageExportMode \<Rightarrow> ParserState
      \<Rightarrow> jsstring \<times> ParserState" and
  stackedLoop_x ::
    "Host \<Rightarrow> rat \<Rightarrow> rat \<Rightarrow> rat \<Rightarrow> RgbColor \<Rightarrow> ImageExportMode \<Rightarrow> rat \<Rightarrow> Node list
      \<Rightarrow> ParserState \<Rightarrow> jsstring list \<times> ParserState" and
  horizontalLoop_x ::
    "Host \<Rightarrow> jsstring \<Rightarrow> bool \<Rightarrow> int \<Rightarrow> RgbColor \<Rightarrow> ImageExportMode \<Rightarrow> Node list
      \<Rightarrow> ParserState \<Rightarrow> jsstring list \<times> ParserState"
where
  "renderNode_x host node parentWidth parentBgColor imageExportMode st =
     (if \<not> node_visible node then ([], st)
      else if isImageLikeNode_x node then renderImage host node parentWidth imageExportMode st
      else if isContainerType (node_type node)
      then (if isBulletPoint node then (renderBulletPoint_x host node parentBgColor, st)
            else renderContainer_x host node parentWidth parentBgColor False imageExportMode st)
      else if node_type node = RECTANGLE \<or> node_type node = ELLIPSE
      then (renderShape_x node parentBgColor, st)
      else if node_type node = TEXT then (renderText_x host node parentBgColor, st)
      else ([], st))"
| "renderContainer_x host node parentWidth parentBgColor isRoot imageExportMode st =
     (let eff = getEffectiveBackgroundColor_x node parentBgColor;
          bgColorHex = hex eff;
          effectiveBgRgb = rgb eff;
          children = filter node_visible (children node)
      in if children = [] \<and> bgColorHex = None \<and> getBorderStyles_x node = None then ([], st)
         else (let inner =
                     (if node_layoutMode node = Some LayoutHorizontal
                      then renderHorizontalChildren_x host node parentWidth effectiveBgRgb
                             imageExportMode st
                      else renderStackedChildren_x host node parentWidth effectiveBgRgb
                             imageExportMode st)
               in (containerTable_x host node parentWidth bgColorHex isRoot (fst inner),
                   snd inner)))"
| "renderStackedChildren_x host parentNode parentWidth parentBgColor imageExportMode st =
     (let lastBottomY = numberOrZero (n_paddingTop (props parentNode));
          paddingLeft = numberOrZero (n_paddingLeft (props parentNode));
          paddingRight = numberOrZero (n_paddingRight (props parentNode));
          availableWidth = numberSub host (numberSub host parentWidth paddingLeft) paddingRight;
          loop = stackedLoop_x host paddingLeft paddingRight availableWidth parentBgColor
                   imageExportMode lastBottomY (stackedChildrenOf parentNode) st
      in (stackedTable (fst loop), snd loop))"
| "renderHorizontalChildren_x host node parentWidth parentBgColor imageExportMode st =
     (let itemSpacing = roundOrZero (n_itemSpacing (props node));
          isSpaceBetween = (n_primaryAxisAlignItems (props node) = Some AlignSpaceBetween
                            \<and> length (horizontalChildrenOf node) > 1);
          loop = horizontalLoop_x host (valignOf node) isSpaceBetween itemSpacing parentBgColor
                   imageExportMode (horizontalChildrenOf node) st
      in (horizontalTable (fst loop), snd loop))"
| "stackedLoop_x host paddingLeft paddingRight availableWidth parentBgColor imageExportMode
     lastBottomY [] st = ([], st)"
| "stackedLoop_x host paddingLeft paddingRight availableWidth parentBgColor imageExportMode
     lastBottomY (child # rest) st =
     (let verticalGap = Math_round (numberSub host (node_y child) lastBottomY);
          rendered = renderNode_x host child availableWidth parentBgColor imageExportMode st;
          childHtml = fst rendered;
          more = stackedLoop_x host paddingLeft paddingRight availableWidth parentBgColor
                   imageExportMode (numberAdd host (node_y child) (node_height child)) rest
                   (snd rendered)
      in ((if verticalGap > 2 then [gapRow_x verticalGap] else [])
          @ (if childHtml \<noteq> [] then [contentRow_x host paddingLeft paddingRight childHtml] else [])
          @ fst more,
          snd more))"
| "horizontalLoop_x host valign isSpaceBetween itemSpacing parentBgColor imageExportMode [] st
     = ([], st)"
| "horizontalLoop_x host valign isSpaceBetween itemSpacing parentBgColor imageExportMode
     (child # rest) st =
     (let rendered = renderNode_x host child (node_width child) parentBgColor imageExportMode st;
          more = horizontalLoop_x host valign isSpaceBetween itemSpacing parentBgColor
                   imageExportMode rest (snd rendered)
      in ([horizontalCell_x valign (fst rendered)]
          @ (if rest \<noteq> [] then spacerCells_x isSpaceBetween itemSpacing else [])
          @ fst more,
          snd more))"
  by pat_completeness auto

termination
proof (relation "measure (\<lambda>v. case v of
    Inl (Inl (host, node, pw, bg, mode, st)) \<Rightarrow> 4 * size node + 3
  | Inl (Inr (Inl (host, node, pw, bg, isRoot, mode, st))) \<Rightarrow> 4 * size node + 2
  | Inl (Inr (Inr (host, node, pw, bg, mode, st))) \<Rightarrow> 4 * size node + 1
  | Inr (Inl (host, node, pw, bg, mode, st)) \<Rightarrow> 4 * size node + 1
  | Inr (Inr (Inl (host, pl, pr, aw, bg, mode, lb, cs, st))) \<Rightarrow> 4 * size_list size cs
  | Inr (Inr (Inr (host, va, sb, sp, bg, mode, cs, st))) \<Rightarrow> 4 * size_list size cs)",
    goal_cases)
  case 1
  show ?case by simp
next
  case 2
  show ?case by simp
next
  case 3
  show ?case by simp
next
  case 4
  show ?case by simp
next
  case (5 host parentNode)
  show ?case using size_stackedChildrenOf [of parentNode] by simp
next
  case (6 host node)
  show ?case using size_horizontalChildrenOf [of node] by simp
next
  case 7
  show ?case by simp
next
  case 8
  show ?case by simp
next
  case 9
  show ?case by simp
next
  case 10
  show ?case by simp
qed

subsection \<open>The entry point\<close>

definition topGapRow_x :: "int \<Rightarrow> jsstring" where
  \<open>topGapRow_x gap =
     S ''<tr><td height="'' @ intStr gap @ S ''" style="height:'' @ intStr gap
     @ S ''px; font-size:'' @ intStr gap @ S ''px; line-height:'' @ intStr gap
     @ S ''px;">&nbsp;</td></tr>''\<close>

text \<open>The \<open>for\<close> loop of \<open>parse\<close> over the sorted selection; \<open>i\<close> is the index.\<close>

fun parseLoop ::
    "Host \<Rightarrow> ImageExportMode \<Rightarrow> nat \<Rightarrow> rat \<Rightarrow> Node list \<Rightarrow> ParserState
      \<Rightarrow> jsstring list \<times> ParserState" where
  "parseLoop host imageExportMode i lastBottomY [] st = ([], st)"
| "parseLoop host imageExportMode i lastBottomY (node # rest) st =
     (let gap = Math_round (numberSub host (node_y node) lastBottomY);
          rendered = renderNode_x host node (node_width node) (Rgb 1 1 1) imageExportMode st;
          nodeHtml = fst rendered;
          more = parseLoop host imageExportMode (i + 1)
                   (if node_visible node then numberAdd host (node_y node) (node_height node)
                    else lastBottomY)
                   rest (snd rendered)
      in ((if i > 0 \<and> gap > 2 then [topGapRow_x gap] else [])
          @ (if trim nodeHtml \<noteq> [] then [S ''<tr><td>'' @ nodeHtml @ S ''</td></tr>''] else [])
          @ fst more,
          snd more))"

text \<open>
  \<open>parse\<close>, with the parser's fields before the call as an argument and after the call
  in the result.  An empty selection returns before the fields are assigned.
\<close>

definition parse ::
    "Host \<Rightarrow> Node list \<Rightarrow> ImageExportMode \<Rightarrow> ParserState \<Rightarrow> jsstring \<times> ParserState" where
  "parse host nodes imageExportMode st0 =
     (if nodes = [] then ([], st0)
      else (let st = \<lparr>imageAssets = [], imageCounter = 0\<rparr>;
                rootBgColor = Rgb 1 1 1
            in case nodes of
                 [node] \<Rightarrow>
                   (let isRootSelection = n_parentIsPage (props node)
                    in if node_type node = FRAME \<or> node_type node = COMPONENT
                          \<or> node_type node = INSTANCE
                       then renderContainer_x host node (node_width node) rootBgColor
                              isRootSelection imageExportMode st
                       else renderNode_x host node (node_width node) rootBgColor imageExportMode st)
               | _ \<Rightarrow>
                   (let sortedNodes = sort_key node_y nodes;
                        lastBottomY = (case sortedNodes of [] \<Rightarrow> 0 | first # others \<Rightarrow> node_y first);
                        loop = parseLoop host imageExportMode 0 lastBottomY sortedNodes st
                    in (concat (fst loop), snd loop))))"

section \<open>Notions used to state the properties\<close>






section \<open>Concrete inputs\<close>

text \<open>
  A host whose export is given and whose arithmetic is exact: the examples below only
  add and subtract integers and quarters of small size, on which the arithmetic of
  doubles is exact.  And a node with every optional property absent, from which the
  concrete nodes of the examples are built.
\<close>

definition hostWith :: "(Node \<Rightarrow> int \<Rightarrow> nat list option) \<Rightarrow> Host" where
  "hostWith export =
     \<lparr>numberAdd = (\<lambda>a b. a + b), numberSub = (\<lambda>a b. a - b),
      numberMul = (\<lambda>a b. a * b), numberDiv = (\<lambda>a b. a / b),
      fractionToString = (\<lambda>v. []), percentToFixed2 = (\<lambda>a b. []),
      encodeURIComponent = (\<lambda>s. s), exportAsync = export,
      base64Encode = (\<lambda>bytes. []), inheritedMember = (\<lambda>key. None)\<rparr>"

definition blankProps :: NodeProps where
  "blankProps =
     \<lparr>n_id = [], n_name = [], n_type = OTHER, n_visible = True,
      n_x = 0, n_y = 0, n_width = 0, n_height = 0,
      n_fills = NoFills, n_strokes = None, n_strokeWeight = None, n_cornerRadius = None,
      n_layoutMode = None, n_paddingTop = None, n_paddingBottom = None,
      n_paddingLeft = None, n_paddingRight = None, n_itemSpacing = None,
      n_primaryAxisAlignItems = None, n_counterAxisAlignItems = None,
      n_characters = [], n_textAlignHorizontal = AlignLeft, n_fontName = None,
      n_fontSize = None, n_segments = [], n_parentFills = [], n_parentIsPage = False\<rparr>"

text \<open>A rectangle with no paint, at a vertical position, of a given size.\<close>

definition rectangleAt :: "rat \<Rightarrow> rat \<Rightarrow> rat \<Rightarrow> Node" where
  "rectangleAt y w h =
     Node (blankProps\<lparr>n_type := RECTANGLE, n_y := y, n_width := w, n_height := h,
                      n_fills := Fills [], n_strokes := Some [], n_strokeWeight := Some 1\<rparr>) []"

text \<open>A vector (an image-like node) with a name, at a vertical position, of a given size.\<close>

definition vectorAt :: "jsstring \<Rightarrow> rat \<Rightarrow> rat \<Rightarrow> rat \<Rightarrow> Node" where
  "vectorAt name y w h =
     Node (blankProps\<lparr>n_name := name, n_type := VECTOR, n_y := y, n_width := w,
                      n_height := h, n_fills := Fills [], n_strokes := Some [],
                      n_strokeWeight := Some 1\<rparr>) []"

text \<open>A frame without auto-layout, with no paint and zero padding, over given children.\<close>

definition frameOf :: "jsstring \<Rightarrow> Node list \<Rightarrow> Node" where
  "frameOf ident cs =
     Node (blankProps\<lparr>n_id := ident, n_type := FRAME, n_width := 600, n_height := 400,
                      n_fills := Fills [], n_strokes := Some [], n_strokeWeight := Some 1,
                      n_layoutMode := Some LayoutNone, n_paddingTop := Some 0,
                      n_paddingBottom := Some 0, n_paddingLeft := Some 0,
                      n_paddingRight := Some 0, n_itemSpacing := Some 0\<rparr>) cs"

text \<open>The same frame, half a pixel high.\<close>

definition flatFrameOf :: "Node list \<Rightarrow> Node" where
  "flatFrameOf cs =
     Node (blankProps\<lparr>n_type := FRAME, n_width := 600, n_height := 1 / 2,
                      n_fills := Fills [], n_strokes := Some [], n_strokeWeight := Some 1,
                      n_layoutMode := Some LayoutNone, n_paddingTop := Some 0,
                      n_paddingBottom := Some 0, n_paddingLeft := Some 0,
                      n_paddingRight := Some 0, n_itemSpacing := Some 0\<rparr>) cs"

text \<open>A text node in Arial Regular 16 with one styled segment.\<close>

definition textOf :: "jsstring \<Rightarrow> Node" where
  "textOf characters =
     Node (blankProps\<lparr>n_type := TEXT, n_width := 100, n_height := 20,
                      n_fills := Fills [], n_strokes := Some [], n_strokeWeight := Some 1,
                      n_characters := characters,
                      n_fontName := Some \<lparr>font_family = S ''Arial'', font_style = S ''Regular''\<rparr>,
                      n_fontSize := Some 16,
                      n_segments := [\<lparr>seg_characters = characters,
                                      seg_fontName = Some \<lparr>font_family = S ''Arial'',
                                                             font_style = S ''Regular''\<rparr>,
                                      seg_fontSize = 16, seg_fills = [],
                                      seg_lineHeight = LineHeightAuto,
                                      seg_textDecoration = DecorationNone\<rparr>]\<rparr>) []"

text \<open>A button-shaped frame: a text and a rectangle.\<close>

definition ctaFrame :: "jsstring \<Rightarrow> jsstring \<Rightarrow> Node" where
  "ctaFrame ident label = frameOf ident [rectangleAt 0 200 40, textOf label]"

declare renderNode.simps [simp del] renderContainer.simps [simp del]
  renderStackedChildren.simps [simp del] renderHorizontalChildren.simps [simp del]
  stackedLoop.simps [simp del] horizontalLoop.simps [simp del]

declare renderNode_x.simps [simp del] renderContainer_x.simps [simp del]
  renderStackedChildren_x.simps [simp del] renderHorizontalChildren_x.simps [simp del]
  stackedLoop_x.simps [simp del] horizontalLoop_x.simps [simp del] parseLoop.simps [simp del]

section \<open>Properties of the colour resolver\<close>

lemma toHex_half: "toHex (1 / 2) = S ''80''"
  by code_simp

lemma toHex_zero: "toHex 0 = S ''00''"
  by code_simp

lemma blend_half_red_over_blue:
  "blendColors (Rgba 1 0 0 (1 / 2)) (Rgb 0 0 1) = Rgb (1 / 2) 0 (1 / 2)"
  by (simp add: blendColors_def)

lemma hex_half_magenta: "figmaColorToHex (Rgb (1 / 2) 0 (1 / 2)) = S ''#800080''"
  by (simp add: figmaColorToHex_def toHex_half toHex_zero S_def)

text \<open>
  C1 (as the code has it).  For the fill colour \<open>(1,0,0)\<close> with opacity \<open>0.5\<close> over the
  background \<open>(0,0,1)\<close>, both revisions of the colour resolver return the resolved RGB
  \<open>(0.5, 0, 0.5)\<close>; its hex string is \<open>#800080\<close>, because \<open>0.5 * 255 = 127.5\<close> and
  \<open>Math.round\<close> takes a tie upwards to \<open>128 = 0x80\<close>.
\<close>

theorem C1_alpha_blend_hex:
  "getEffectiveBackgroundColorForFills [SolidPaint (Rgb 1 0 0) (Some (1 / 2)) True] (Rgb 0 0 1)
     = \<lparr>hex = Some (S ''#800080''), rgb = Rgb (1 / 2) 0 (1 / 2)\<rparr>
   \<and> getEffectiveBackgroundColorForFills_x [SolidPaint (Rgb 1 0 0) (Some (1 / 2)) True] (Rgb 0 0 1)
     = \<lparr>hex = Some (S ''#800080''), rgb = Rgb (1 / 2) 0 (1 / 2)\<rparr>"
  by (simp add: getEffectiveBackgroundColorForFills_def getEffectiveBackgroundColorForFills_x_def
      orOne_def Let_def blend_half_red_over_blue hex_half_magenta)

text \<open>
  C1 (as the specification states it) fails: the hex string the resolver returns for that
  input is not \<open>#7f007f\<close>, in either revision.
\<close>

theorem C1_hex_7f007f_counterexample:
  "hex (getEffectiveBackgroundColorForFills
          [SolidPaint (Rgb 1 0 0) (Some (1 / 2)) True] (Rgb 0 0 1)) \<noteq> Some (S ''#7f007f'')
   \<and> hex (getEffectiveBackgroundColorForFills_x
          [SolidPaint (Rgb 1 0 0) (Some (1 / 2)) True] (Rgb 0 0 1)) \<noteq> Some (S ''#7f007f'')"
  by (simp add: getEffectiveBackgroundColorForFills_def getEffectiveBackgroundColorForFills_x_def
      orOne_def Let_def blend_half_red_over_blue hex_half_magenta S_def)

text \<open>
  C2.  When the first visible paint of the list is a solid paint whose opacity
  (\<open>opacity ?? 1\<close>) is at least \<open>0.99\<close>, both revisions return that paint's own colour
  and the hex string of that colour, whatever background is passed in.
\<close>

theorem C2_opaque_fill_own_color:
  assumes "find paintVisible fills = Some (SolidPaint color opac v)"
    and "orOne opac \<ge> 99 / 100"
  shows "getEffectiveBackgroundColorForFills fills bg
           = \<lparr>hex = Some (figmaColorToHex color), rgb = color\<rparr>
       \<and> getEffectiveBackgroundColorForFills_x fills bg
           = \<lparr>hex = Some (figmaColorToHex color), rgb = color\<rparr>"
proof -
  have first_solid:
    "find (\<lambda>f. isSolid f \<and> paintVisible f) fills = Some (SolidPaint color opac v)"
    using assms(1)
  proof (induction fills)
    case Nil
    then show ?case by simp
  next
    case (Cons p ps)
    then show ?case by (cases "paintVisible p") auto
  qed
  show ?thesis
    using assms first_solid
    by (simp add: getEffectiveBackgroundColorForFills_def
        getEffectiveBackgroundColorForFills_x_def Let_def)
qed

theorem C2_opaque_fill_own_color_witness:
  "getEffectiveBackgroundColorForFills
      [ImagePaint False, SolidPaint (Rgb 1 0 0) (Some 1) True] (Rgb 0 0 1)
     = \<lparr>hex = Some (figmaColorToHex (Rgb 1 0 0)), rgb = Rgb 1 0 0\<rparr>
   \<and> getEffectiveBackgroundColorForFills_x
      [ImagePaint False, SolidPaint (Rgb 1 0 0) (Some 1) True] (Rgb 0 0 1)
     = \<lparr>hex = Some (figmaColorToHex (Rgb 1 0 0)), rgb = Rgb 1 0 0\<rparr>"
  using C2_opaque_fill_own_color
    [of "[ImagePaint False, SolidPaint (Rgb 1 0 0) (Some 1) True]" "Rgb 1 0 0" "Some 1" True
        "Rgb 0 0 1"]
  by (simp add: orOne_def)

section \<open>Properties of the style accumulator\<close>

lemmas style_eval =
  cleanZeroValueStyles_def cleanZeroKeep_def cleanZeroValueStyles_x_def cleanZeroKeep_x_def
  trim_def isWhiteSpace_def S_def isZeroLength_def isZero_x_def sanitizeStyles_def
  sanitizeRule_def entriesToString_def accumulate_def newSet_def removeQuotes_def Let_def

text \<open>
  C3.  The accumulation step is not idempotent.  A font family written with a trailing
  space inside its quotes keeps that space on the first pass (the name is trimmed before
  its quotes are removed) and loses it on the second; a declaration whose property name
  is blank passes the empty-property guard untrimmed on the first pass and is dropped by
  the same guard on the second.
\<close>

theorem C3_accumulate_twice_differs:
  "accumulate (S ''font-family: 'Arial ', sans-serif'') = S ''font-family:Arial , sans-serif''
   \<and> accumulate (accumulate (S ''font-family: 'Arial ', sans-serif''))
       = S ''font-family:Arial, sans-serif''
   \<and> accumulate (S '' :x'') = S '':x''
   \<and> accumulate (accumulate (S '' :x'')) = []"
  by (simp add: style_eval)

lemma splitOn_unfold:
  "splitOn c d = takeWhile (\<lambda>x. x \<noteq> c) d #
     (if c \<in> set d then splitOn c (tl (dropWhile (\<lambda>x. x \<noteq> c) d)) else [])"
proof (induction d)
  case Nil
  then show ?case by simp
next
  case (Cons x xs)
  show ?case
  proof (cases "x = c")
    case True
    then show ?thesis by simp
  next
    case False
    then show ?thesis using Cons by (simp split: list.splits)
  qed
qed

lemma isZeroLength_iff: "isZeroLength v \<longleftrightarrow> zeroLength v \<or> v = S ''0rem''"
  by (cases v) (auto simp: isZeroLength_def zeroLength_def S_def)

lemma isZero_x_iff: "isZero_x v \<longleftrightarrow> zeroLength v"
  by (cases v) (auto simp: isZero_x_def zeroLength_def S_def)

lemma first_component_not_border_radius:
  "takeWhile (\<lambda>x. x \<noteq> 45) key \<noteq> S ''border-radius''"
proof
  assume "takeWhile (\<lambda>x. x \<noteq> 45) key = S ''border-radius''"
  then have "45 \<in> set (takeWhile (\<lambda>x. x \<noteq> (45::nat)) key)"
    by (simp add: S_def)
  then show False
    by (auto dest: set_takeWhileD)
qed

lemma splitOn_two:
  assumes "c \<in> set d"
  shows "\<exists>ps. splitOn c d = takeWhile (\<lambda>x. x \<noteq> c) d #
           takeWhile (\<lambda>x. x \<noteq> c) (tl (dropWhile (\<lambda>x. x \<noteq> c) d)) # ps"
proof -
  have "splitOn c d = takeWhile (\<lambda>x. x \<noteq> c) d # splitOn c (tl (dropWhile (\<lambda>x. x \<noteq> c) d))"
    using assms splitOn_unfold [of c d] by simp
  moreover have "\<exists>ps. splitOn c (tl (dropWhile (\<lambda>x. x \<noteq> c) d)) =
      takeWhile (\<lambda>x. x \<noteq> c) (tl (dropWhile (\<lambda>x. x \<noteq> c) d)) # ps"
    using splitOn_unfold [of c "tl (dropWhile (\<lambda>x. x \<noteq> c) d)"] by blast
  ultimately show ?thesis by auto
qed

lemma splitOn_one: "c \<notin> set d \<Longrightarrow> splitOn c d = [d]"
  using splitOn_unfold [of c d] by (auto simp add: takeWhile_eq_all_conv)

lemma splitOn_hd: "\<exists>ks. splitOn c d = takeWhile (\<lambda>x. x \<noteq> c) d # ks"
  using splitOn_unfold [of c d] by blast

lemma cleanZeroKeep_iff:
  "cleanZeroKeep d \<longleftrightarrow> trim d \<noteq> [] \<and> \<not> zeroSpacingDecl d"
proof (cases "58 \<in> set d")
  case True
  obtain ps where ps: "splitOn 58 d = takeWhile (\<lambda>x. x \<noteq> 58) d #
      takeWhile (\<lambda>x. x \<noteq> 58) (tl (dropWhile (\<lambda>x. x \<noteq> 58) d)) # ps"
    using splitOn_two [OF True] by blast
  obtain ks where ks: "splitOn 45 (trim (takeWhile (\<lambda>x. x \<noteq> 58) d)) =
      takeWhile (\<lambda>x. x \<noteq> 45) (trim (takeWhile (\<lambda>x. x \<noteq> 58) d)) # ks"
    using splitOn_hd by blast
  show ?thesis
    using True
    by (simp add: cleanZeroKeep_def zeroSpacingDecl_def declValue_def declProperty_def
        spacingProperty_def ps ks Let_def isZeroLength_iff first_component_not_border_radius)
next
  case False
  then show ?thesis
    by (simp add: cleanZeroKeep_def zeroSpacingDecl_def declValue_def splitOn_one)
qed

lemma zeroLength_Nil: "\<not> zeroLength []"
  by (simp add: zeroLength_def S_def)

lemma cleanZeroKeep_x_iff:
  "cleanZeroKeep_x d \<longleftrightarrow> trim d \<noteq> [] \<and> \<not> zeroSpacingDecl_x d \<and> \<not> borderRadiusDecl d"
proof (cases "58 \<in> set d")
  case True
  obtain ps where ps: "splitOn 58 d = takeWhile (\<lambda>x. x \<noteq> 58) d #
      takeWhile (\<lambda>x. x \<noteq> 58) (tl (dropWhile (\<lambda>x. x \<noteq> 58) d)) # ps"
    using splitOn_two [OF True] by blast
  show ?thesis
    using True
    apply (simp add: cleanZeroKeep_x_def zeroSpacingDecl_x_def borderRadiusDecl_def
        declValue_def declProperty_def spacingProperty_x_def ps Let_def isZero_x_iff)
    apply (use zeroLength_Nil in blast)
    done
next
  case False
  then show ?thesis
    by (simp add: cleanZeroKeep_x_def zeroSpacingDecl_x_def borderRadiusDecl_def declValue_def
        splitOn_one)
qed

lemma cleanZeroKeep_eq: "cleanZeroKeep = (\<lambda>d. trim d \<noteq> [] \<and> \<not> zeroSpacingDecl d)"
  by (rule ext) (rule cleanZeroKeep_iff)

lemma cleanZeroKeep_x_eq:
  "cleanZeroKeep_x = (\<lambda>d. trim d \<noteq> [] \<and> \<not> (zeroSpacingDecl_x d \<or> borderRadiusDecl d))"
  by (rule ext) (simp add: cleanZeroKeep_x_iff)

lemma trim_Nil: "trim [] = []"
  by (simp add: trim_def)


lemma cleanZeroValueStyles_declarations:
  "cleanZeroValueStyles s
     = joinWith (S '';'') (filter (\<lambda>d. \<not> zeroSpacingDecl d) (declarations s))"
proof (cases "s = []")
  case True
  then show ?thesis by (simp add: cleanZeroValueStyles_def declarations_def trim_Nil)
next
  case False
  then show ?thesis
    by (simp add: cleanZeroValueStyles_def declarations_def cleanZeroKeep_eq conj_commute)
qed

lemma cleanZeroValueStyles_x_declarations:
  "cleanZeroValueStyles_x s
     = joinWith (S '';'')
         (filter (\<lambda>d. \<not> (zeroSpacingDecl_x d \<or> borderRadiusDecl d)) (declarations s))"
proof (cases "s = []")
  case True
  then show ?thesis by (simp add: cleanZeroValueStyles_x_def declarations_def trim_Nil)
next
  case False
  then show ?thesis
    by (simp add: cleanZeroValueStyles_x_def declarations_def cleanZeroKeep_x_eq conj_commute)
qed

lemma cleanZero_examples:
  "cleanZeroValueStyles (S ''padding-left:0px;color:red'') = S ''color:red''"
  "cleanZeroValueStyles (S ''border:0'') = []"
  by (simp_all add: style_eval)

lemma cleanZero_x_examples:
  "cleanZeroValueStyles_x (S ''padding-left:0px;color:red'') = S ''color:red''"
  "cleanZeroValueStyles_x (S ''border:0'') = []"
  by (simp_all add: style_eval sublist_code)

text \<open>
  C4 (as the code has it).  The pruned string consists of the declarations of the input,
  unchanged and in order, joined by semicolons, without those to be pruned.  In
  \<^verbatim>\<open>src/code.ts\<close> the pruned declarations are exactly the spacing declarations
  (\<open>margin\<close>, \<open>padding\<close>, \<open>border\<close> and their hyphenated sub-properties) whose value is a
  zero length; in the revision with image export modes they are those whose property
  starts with one of these words and whose value is a zero length, and every declaration
  with a non-empty value whose property contains \<open>border-radius\<close>.  In both,
  \<open>padding-left:0px;color:red\<close> prunes to \<open>color:red\<close> and \<open>border:0\<close> to the empty string.
\<close>

theorem C4_zero_value_pruning:
  "cleanZeroValueStyles s
     = joinWith (S '';'') (filter (\<lambda>d. \<not> zeroSpacingDecl d) (declarations s))
   \<and> cleanZeroValueStyles_x s
     = joinWith (S '';'')
         (filter (\<lambda>d. \<not> (zeroSpacingDecl_x d \<or> borderRadiusDecl d)) (declarations s))
   \<and> cleanZeroValueStyles (S ''padding-left:0px;color:red'') = S ''color:red''
   \<and> cleanZeroValueStyles (S ''border:0'') = []
   \<and> cleanZeroValueStyles_x (S ''padding-left:0px;color:red'') = S ''color:red''
   \<and> cleanZeroValueStyles_x (S ''border:0'') = []"
  using cleanZeroValueStyles_declarations [of s] cleanZeroValueStyles_x_declarations [of s]
    cleanZero_examples cleanZero_x_examples
  by simp

text \<open>
  C4 (as the specification states it) fails in the revision with image export modes: the
  declaration \<open>border-radius:4px\<close> has the non-zero value \<open>4px\<close> and is dropped.
\<close>

theorem C4_border_radius_counterexample:
  "declarations (S ''border-radius:4px'') = [S ''border-radius:4px'']
   \<and> declValue (S ''border-radius:4px'') = Some (S ''4px'')
   \<and> \<not> zeroLength (S ''4px'')
   \<and> cleanZeroValueStyles_x (S ''border-radius:4px'') = []"
  by (simp add: declarations_def declValue_def zeroLength_def style_eval sublist_code)

section \<open>Properties of the renderers\<close>

lemmas fixture_defs =
  ctaFrame_def frameOf_def rectangleAt_def textOf_def vectorAt_def blankProps_def hostWith_def

lemma hostWith_arith:
  "numberAdd (hostWith export) a b = a + b" "numberSub (hostWith export) a b = a - b"
  by (simp_all add: hostWith_def)

lemma Math_round_examples:
  "Math_round 0 = 0" "Math_round 2 = 2" "Math_round 3 = 3" "Math_round (9 / 4) = 2"
  "Math_round 40 = 40" "Math_round 10 = 10" "Math_round 16 = 16" "Math_round 20 = 20"
  "Math_round 24 = 24" "Math_round 48 = 48" "Math_round (24 * 2) = 48"
  by code_simp+

lemma intStr_examples:
  "intStr 1 = S ''1''" "intStr 2 = S ''2''" "intStr 3 = S ''3''" "intStr 6 = S ''6''"
  "intStr 16 = S ''16''"
  by code_simp+


lemma renderShape_x_not_empty:
  "\<not> node_width node < 1 \<Longrightarrow> \<not> node_height node < 1 \<Longrightarrow> renderShape_x node bg \<noteq> []"
  by (simp add: renderShape_x_def Let_def S_def)


lemma renderNode_x_rectangle:
  "renderNode_x host (rectangleAt y w h) pw bg mode st = (renderShape_x (rectangleAt y w h) bg, st)"
  by (simp add: renderNode_x.simps fixture_defs isContainerType_def hasImageFill_def)

lemma rectangleAt_sel:
  "node_y (rectangleAt y w h) = y" "node_width (rectangleAt y w h) = w"
  "node_height (rectangleAt y w h) = h" "node_visible (rectangleAt y w h)"
  by (simp_all add: fixture_defs)

lemma vectorAt_sel:
  "node_y (vectorAt name y w h) = y" "node_width (vectorAt name y w h) = w"
  "node_height (vectorAt name y w h) = h" "node_visible (vectorAt name y w h)"
  "node_name (vectorAt name y w h) = name" "isImageLikeNode_x (vectorAt name y w h)"
  "isImageLikeNode (vectorAt name y w h)" "node_type (vectorAt name y w h) = VECTOR"
  by (simp_all add: fixture_defs isImageLikeNode_def)

lemma frameOf_stacked:
  "stackedChildrenOf (frameOf ident cs) = sort_key node_y (filter node_visible cs)"
  "n_paddingTop (props (frameOf ident cs)) = Some 0"
  "n_paddingLeft (props (frameOf ident cs)) = Some 0"
  "n_paddingRight (props (frameOf ident cs)) = Some 0"
  by (simp_all add: stackedChildrenOf_def frameOf_def blankProps_def)


subsection \<open>Vertical gaps\<close>










subsection \<open>Call-to-action gating\<close>

lemma cta_shape_not_icon:
  assumes "list_ex (\<lambda>c. node_type c = TEXT) (children node)"
  shows "\<not> isIconGroup node"
proof (cases node)
  case (Node p cs)
  with assms have "cs \<noteq> []" by auto
  moreover have "\<not> list_all (\<lambda>child. node_type child \<noteq> TEXT \<and> isVectorial child) cs"
    using assms Node by (auto simp: list_all_iff list_ex_iff)
  ultimately show ?thesis using Node by (simp add: isIconGroup_def)
qed

lemma cta_shape_not_bullet:
  assumes "list_ex (\<lambda>c. node_type c = RECTANGLE \<or> node_type c = ELLIPSE) (children node)"
  shows "\<not> isBulletPoint node"
  using assms
  by (auto simp: isBulletPoint_def list_ex_iff split: list.splits)

text \<open>
  C6.  A visible container with exactly two children, one of them a text node and one a
  rectangle or ellipse, whose id is not among the confirmed ids, is rendered by
  \<open>renderContainer\<close>: \<open>renderNode\<close> takes neither the image, the bullet nor the
  call-to-action branch.
\<close>

theorem C6_unconfirmed_cta_is_plain_container:
  assumes "node_visible node"
    and "isContainerType (node_type node)"
    and "length (children node) = 2"
    and "list_ex (\<lambda>c. node_type c = TEXT) (children node)"
    and "list_ex (\<lambda>c. node_type c = RECTANGLE \<or> node_type c = ELLIPSE) (children node)"
    and "node_id node \<notin> set confirmedCtaIds"
  shows "renderNode host confirmedCtaIds node parentWidth parentBgColor
         = renderContainer host confirmedCtaIds node parentWidth parentBgColor False"
  using assms cta_shape_not_icon [of node] cta_shape_not_bullet [of node]
  by (simp add: renderNode.simps)


theorem C6_unconfirmed_cta_witness:
  "node_visible (ctaFrame (S ''1:2'') (S ''Buy'')) 
   \<and> isPotentialCta (ctaFrame (S ''1:2'') (S ''Buy'')) 
   \<and> S ''1:2'' \<notin> set [S ''9:9'']
   \<and> renderNode (hostWith (\<lambda>n w. None)) [S ''9:9''] (ctaFrame (S ''1:2'') (S ''Buy'')) 600 (Rgb 1 1 1)
     = renderContainer (hostWith (\<lambda>n w. None)) [S ''9:9''] (ctaFrame (S ''1:2'') (S ''Buy'')) 600 (Rgb 1 1 1) False"
  using C6_unconfirmed_cta_is_plain_container [of "ctaFrame (S ''1:2'') (S ''Buy'')" "[S ''9:9'']"
     "hostWith (\<lambda>n w. None)" 600 "Rgb 1 1 1"]
  by (simp add: fixture_defs isPotentialCta_def isContainerType_def S_def)

subsection \<open>Asset numbering\<close>











lemma imageName_examples:
  "imageName 1 = S ''image-1.png''" "imageName 2 = S ''image-2.png''"
  "imageName 3 = S ''image-3.png''"
  by (simp_all add: imageName_def intStr_examples S_def)

lemma imageName_Suc_0: "imageName (Suc 0) = S ''image-1.png''"
  using imageName_examples(1) by simp










subsection \<open>Export failures\<close>

lemma exportError_not_empty: "exportError altText \<noteq> []"
  by (simp add: exportError_def S_def)

lemma trim_not_empty:
  assumes "c \<in> set s" and "\<not> isWhiteSpace c"
  shows "trim s \<noteq> []"
proof
  assume "trim s = []"
  then have all_white: "\<forall>x \<in> set (dropWhile isWhiteSpace s). isWhiteSpace x"
    by (simp add: trim_def dropWhile_eq_Nil_conv)
  from assms have "dropWhile isWhiteSpace s \<noteq> []"
    by (auto simp: dropWhile_eq_Nil_conv)
  then have "\<not> isWhiteSpace (hd (dropWhile isWhiteSpace s))"
    and "hd (dropWhile isWhiteSpace s) \<in> set (dropWhile isWhiteSpace s)"
    by (simp_all add: hd_dropWhile)
  with all_white show False by blast
qed

lemma exportError_not_blank: "trim (exportError altText) \<noteq> []"
  by (rule trim_not_empty [of 60]) (simp_all add: exportError_def S_def isWhiteSpace_def)

lemma renderImage_export_fails:
  assumes "1 \<le> node_width node" and "1 \<le> node_height node"
    and "mode \<noteq> Placeholder"
    and "exportAsync host node (Math_round (node_width node * 2)) = None"
  shows "renderImage host node parentWidth mode st = (exportError (altName node), st)"
  using assms by (simp add: renderImage_def Let_def)

lemma renderNode_x_export_fails:
  assumes "node_visible node" and "isImageLikeNode_x node"
    and "1 \<le> node_width node" and "1 \<le> node_height node"
    and "mode \<noteq> Placeholder"
    and "exportAsync host node (Math_round (node_width node * 2)) = None"
  shows "renderNode_x host node parentWidth parentBgColor mode st = (exportError (altName node), st)"
  using assms by (simp add: renderNode_x.simps renderImage_export_fails)

text \<open>
  C8.  When the export of a visible image-like node is attempted in \<open>base64\<close> or
  \<open>download\<close> mode and fails, \<open>renderImage\<close> and \<open>renderNode\<close> return the error
  paragraph with the node's name (\<open>Image\<close> when the name is empty) and leave the asset
  list and the counter as they were; the stacking loop, the horizontal loop and the loop
  of \<open>parse\<close> over a multiple selection put that paragraph in a row or cell and go on
  with the remaining nodes from the unchanged fields.
\<close>

theorem C8_export_failure_is_local:
  assumes "node_visible node" and "isImageLikeNode_x node"
    and "1 \<le> node_width node" and "1 \<le> node_height node"
    and "mode = Base64 \<or> mode = Download"
    and "exportAsync host node (Math_round (node_width node * 2)) = None"
  shows "renderImage host node parentWidth mode st = (exportError (altName node), st)
    \<and> renderNode_x host node parentWidth parentBgColor mode st = (exportError (altName node), st)
    \<and> stackedLoop_x host paddingLeft paddingRight availableWidth parentBgColor mode lastBottomY
          (node # rest) st
        = ((if Math_round (numberSub host (node_y node) lastBottomY) > 2
            then [gapRow_x (Math_round (numberSub host (node_y node) lastBottomY))] else [])
           @ [contentRow_x host paddingLeft paddingRight (exportError (altName node))]
           @ fst (stackedLoop_x host paddingLeft paddingRight availableWidth parentBgColor mode
                    (numberAdd host (node_y node) (node_height node)) rest st),
           snd (stackedLoop_x host paddingLeft paddingRight availableWidth parentBgColor mode
                    (numberAdd host (node_y node) (node_height node)) rest st))
    \<and> horizontalLoop_x host valign isSpaceBetween itemSpacing parentBgColor mode (node # rest) st
        = ([horizontalCell_x valign (exportError (altName node))]
           @ (if rest \<noteq> [] then spacerCells_x isSpaceBetween itemSpacing else [])
           @ fst (horizontalLoop_x host valign isSpaceBetween itemSpacing parentBgColor mode rest st),
           snd (horizontalLoop_x host valign isSpaceBetween itemSpacing parentBgColor mode rest st))
    \<and> parseLoop host mode i lastBottomY (node # rest) st
        = ((if i > 0 \<and> Math_round (numberSub host (node_y node) lastBottomY) > 2
            then [topGapRow_x (Math_round (numberSub host (node_y node) lastBottomY))] else [])
           @ [S ''<tr><td>'' @ exportError (altName node) @ S ''</td></tr>'']
           @ fst (parseLoop host mode (i + 1) (numberAdd host (node_y node) (node_height node))
                    rest st),
           snd (parseLoop host mode (i + 1) (numberAdd host (node_y node) (node_height node))
                    rest st))"
proof -
  from assms(5) have mode: "mode \<noteq> Placeholder" by auto
  note img = renderImage_export_fails [OF assms(3,4) mode assms(6)]
  note rn = renderNode_x_export_fails [OF assms(1-4) mode assms(6)]
  show ?thesis
    using assms(1)
    by (simp add: img rn stackedLoop_x.simps horizontalLoop_x.simps parseLoop.simps Let_def
        exportError_not_empty exportError_not_blank)
qed

theorem C8_export_failure_witness:
  \<open>isImageLikeNode_x (vectorAt (S ''logo'') 0 24 24)
   \<and> exportAsync (hostWith (\<lambda>n w. None)) (vectorAt (S ''logo'') 0 24 24) 48 = None
   \<and> renderNode_x (hostWith (\<lambda>n w. None)) (vectorAt (S ''logo'') 0 24 24) 600 (Rgb 1 1 1) Download
        \<lparr>imageAssets = [], imageCounter = 0\<rparr>
      = (S ''<p style="color:red;">Error exporting image: logo</p>'',
         \<lparr>imageAssets = [], imageCounter = 0\<rparr>)\<close>
  using C8_export_failure_is_local [of "vectorAt (S ''logo'') 0 24 24" Download
      "hostWith (\<lambda>n w. None)" 600 "\<lparr>imageAssets = [], imageCounter = 0\<rparr>" "Rgb 1 1 1"]
  by (simp add: fixture_defs exportError_def altName_def S_def Math_round_def)


subsection \<open>Text escaping\<close>

lemma cta_example:
  \<open>renderNode (hostWith (\<lambda>n w. None)) [S ''1:2''] (ctaFrame (S ''1:2'') (S ''a<b'')) 600 (Rgb 1 1 1)
     = S ''<table border="0" cellpadding="0" cellspacing="0" role="presentation"><tr><td align="center" style="border-radius: 6px; background-color: #6D28D9;" bgcolor="#6D28D9"><a href="#" target="_blank" style="font-family: 'Arial', Arial, sans-serif; font-size: 16px; font-weight: 400; color: #FFFFFF; text-decoration: none; padding: 12px 24px; border-radius: 6px; display: inline-block;">a<b</a></td></tr></table>''\<close>
  by (simp add: renderNode.simps fixture_defs isContainerType_def isIconGroup_def
      isBulletPoint_def isPotentialCta_def renderCta_def getEffectiveBackgroundColor_def
      getEffectiveBackgroundColorForFills_def isBold_def toLowerCase_def sublist_code
      numStr_def intStr_examples Math_round_examples Let_def S_def)

lemma text_example:
  \<open>renderText (hostWith (\<lambda>n w. None)) (textOf (S ''a<b'')) (Rgb 1 1 1)
     = S ''<table cellpadding="0" cellspacing="0" border="0" role="presentation" width="100%"><tr><td  style="text-align:left;font-family:Arial, sans-serif;font-size:16px">a&lt;b</td></tr></table>''\<close>
  by (simp add: renderText_def fixture_defs textAlignLower_def styleObjectToInlineCss_def
      getBorderStyles_def filterBoolean_def styleAttrOf_def textTable_def sanitizeChars_def
      replaceAll_def isBold_def toLowerCase_def sublist_code intStr_examples
      Math_round_examples style_eval)

text \<open>
  C9.  The call-to-action path emits the text unescaped: a confirmed button frame whose
  text is \<open>a<b\<close> is rendered with \<open>a<b\<close> inside the anchor, while \<open>renderText\<close> renders
  the same text node with \<open>a&lt;b\<close>.
\<close>

theorem C9_cta_text_not_escaped:
  \<open>renderNode (hostWith (\<lambda>n w. None)) [S ''1:2''] (ctaFrame (S ''1:2'') (S ''a<b'')) 600 (Rgb 1 1 1)
     = S ''<table border="0" cellpadding="0" cellspacing="0" role="presentation"><tr><td align="center" style="border-radius: 6px; background-color: #6D28D9;" bgcolor="#6D28D9"><a href="#" target="_blank" style="font-family: 'Arial', Arial, sans-serif; font-size: 16px; font-weight: 400; color: #FFFFFF; text-decoration: none; padding: 12px 24px; border-radius: 6px; display: inline-block;">a<b</a></td></tr></table>''
   \<and> renderText (hostWith (\<lambda>n w. None)) (textOf (S ''a<b'')) (Rgb 1 1 1)
     = S ''<table cellpadding="0" cellspacing="0" border="0" role="presentation" width="100%"><tr><td  style="text-align:left;font-family:Arial, sans-serif;font-size:16px">a&lt;b</td></tr></table>''\<close>
  using cta_example text_example by simp

subsection \<open>Degenerate nodes\<close>

lemma renderNode_x_degenerate_image:
  assumes "node_width node < 1 \<or> node_height node < 1" and "isImageLikeNode_x node"
  shows "renderNode_x host node pw bg mode st = ([], st)"
  using assms by (auto simp: renderNode_x.simps renderImage_def)

lemma degenerate_icon_group:
  assumes "isImageLikeNode node" and "isContainerType (node_type node)"
  shows "isIconGroup node"
  using assms by (auto simp: isImageLikeNode_def isContainerType_def split: if_splits)

lemma renderNode_degenerate:
  assumes "node_width node < 1 \<or> node_height node < 1"
    and "node_type node = RECTANGLE \<or> node_type node = ELLIPSE
          \<or> (isImageLikeNode node \<and> node_type node \<noteq> TEXT)"
  shows "renderNode host confirmedCtaIds node parentWidth parentBgColor = []"
proof (cases "isContainerType (node_type node)")
  case True
  then have "isIconGroup node"
    using assms(2) degenerate_icon_group [of node] by (auto simp: isContainerType_def)
  then show ?thesis
    using assms(1) True by (simp add: renderNode.simps renderImagePlaceholder_def)
next
  case False
  then show ?thesis
    using assms
    by (auto simp: renderNode.simps renderImagePlaceholder_def renderShape_def)
qed

lemma renderNode_x_degenerate:
  assumes "node_width node < 1 \<or> node_height node < 1"
    and "node_type node = RECTANGLE \<or> node_type node = ELLIPSE \<or> isImageLikeNode_x node"
  shows "renderNode_x host node parentWidth parentBgColor mode st = ([], st)"
  using assms
  by (auto simp: renderNode_x.simps renderImage_def renderShape_x_def isContainerType_def)

lemma parse_single_degenerate:
  assumes "node_width node < 1 \<or> node_height node < 1"
    and "node_type node = RECTANGLE \<or> node_type node = ELLIPSE \<or> isImageLikeNode_x node"
    and "node_type node \<noteq> FRAME" and "node_type node \<noteq> COMPONENT"
    and "node_type node \<noteq> INSTANCE"
  shows "parse host [node] mode st0 = ([], \<lparr>imageAssets = [], imageCounter = 0\<rparr>)"
  using assms(3-5) renderNode_x_degenerate [OF assms(1,2)]
  by (simp add: parse_def Let_def)

lemma parseLoop_degenerate:
  assumes "node_width node < 1 \<or> node_height node < 1"
    and "node_type node = RECTANGLE \<or> node_type node = ELLIPSE \<or> isImageLikeNode_x node"
  shows "parseLoop host mode i lastBottomY (node # rest) st
         = ((if i > 0 \<and> Math_round (numberSub host (node_y node) lastBottomY) > 2
             then [topGapRow_x (Math_round (numberSub host (node_y node) lastBottomY))] else [])
            @ fst (parseLoop host mode (i + 1)
                     (if node_visible node then numberAdd host (node_y node) (node_height node)
                      else lastBottomY) rest st),
            snd (parseLoop host mode (i + 1)
                     (if node_visible node then numberAdd host (node_y node) (node_height node)
                      else lastBottomY) rest st))"
  using renderNode_x_degenerate [OF assms]
  by (simp add: parseLoop.simps Let_def trim_Nil)

text \<open>
  C10 (as the code has it).  A rectangle, an ellipse or an image-like node whose width or
  height is below one pixel, when it is rendered by \<open>renderNode\<close>, gives the empty
  fragment, in both revisions; in the revision with export modes the asset list and the
  counter are returned unchanged.  This is every such node but one: a frame, component
  or instance that is the only selected node, which \<open>parse\<close> hands to \<open>renderContainer\<close>.
  So \<open>parse\<close> of a single such node of another type returns the empty string with no
  asset, and in a multiple selection the node adds no content row and leaves the fields
  as they are.  (In \<^verbatim>\<open>src/code.ts\<close> a text node is dispatched on its type; it has no
  children, so it is never image-like.)
\<close>

theorem C10_degenerate_nodes_render_empty:
  assumes "node_width node < 1 \<or> node_height node < 1"
  shows "(node_type node = RECTANGLE \<or> node_type node = ELLIPSE
          \<or> (isImageLikeNode node \<and> node_type node \<noteq> TEXT)
          \<longrightarrow> renderNode host confirmedCtaIds node parentWidth parentBgColor = [])
       \<and> (node_type node = RECTANGLE \<or> node_type node = ELLIPSE \<or> isImageLikeNode_x node
          \<longrightarrow> renderNode_x host node parentWidth parentBgColor mode st = ([], st))
       \<and> ((node_type node = RECTANGLE \<or> node_type node = ELLIPSE \<or> isImageLikeNode_x node)
            \<and> node_type node \<noteq> FRAME \<and> node_type node \<noteq> COMPONENT
            \<and> node_type node \<noteq> INSTANCE
          \<longrightarrow> parse host [node] mode st0 = ([], \<lparr>imageAssets = [], imageCounter = 0\<rparr>))
       \<and> (node_type node = RECTANGLE \<or> node_type node = ELLIPSE \<or> isImageLikeNode_x node
          \<longrightarrow> parseLoop host mode i lastBottomY (node # rest) st
              = ((if i > 0 \<and> Math_round (numberSub host (node_y node) lastBottomY) > 2
                  then [topGapRow_x (Math_round (numberSub host (node_y node) lastBottomY))]
                  else [])
                 @ fst (parseLoop host mode (i + 1)
                          (if node_visible node
                           then numberAdd host (node_y node) (node_height node)
                           else lastBottomY) rest st),
                 snd (parseLoop host mode (i + 1)
                          (if node_visible node
                           then numberAdd host (node_y node) (node_height node)
                           else lastBottomY) rest st)))"
  using renderNode_degenerate [OF assms, of host confirmedCtaIds parentWidth parentBgColor]
    renderNode_x_degenerate [OF assms, of host parentWidth parentBgColor mode st]
    parse_single_degenerate [OF assms, of host mode st0]
    parseLoop_degenerate [OF assms, of host mode i lastBottomY rest st]
  by blast

theorem C10_degenerate_nodes_witness:
  "node_width (vectorAt (S ''v'') 50 0 0) < 1
   \<and> isImageLikeNode (vectorAt (S ''v'') 50 0 0)
   \<and> isImageLikeNode_x (vectorAt (S ''v'') 50 0 0)
   \<and> node_type (vectorAt (S ''v'') 50 0 0) = VECTOR
   \<and> renderNode (hostWith (\<lambda>n w. None)) [] (vectorAt (S ''v'') 50 0 0) 600 (Rgb 1 1 1) = []
   \<and> renderNode_x (hostWith (\<lambda>n w. None)) (vectorAt (S ''v'') 50 0 0) 600 (Rgb 1 1 1) Download
        \<lparr>imageAssets = [], imageCounter = 0\<rparr>
      = ([], \<lparr>imageAssets = [], imageCounter = 0\<rparr>)
   \<and> parse (hostWith (\<lambda>n w. None)) [vectorAt (S ''v'') 50 0 0] Download
        \<lparr>imageAssets = [], imageCounter = 0\<rparr>
      = ([], \<lparr>imageAssets = [], imageCounter = 0\<rparr>)
   \<and> parseLoop (hostWith (\<lambda>n w. None)) Download 0 0 [vectorAt (S ''v'') 50 0 0]
        \<lparr>imageAssets = [], imageCounter = 0\<rparr>
      = ([], \<lparr>imageAssets = [], imageCounter = 0\<rparr>)"
  using C10_degenerate_nodes_render_empty [where node = "vectorAt (S ''v'') 50 0 0"
      and host = "hostWith (\<lambda>n w. None)" and confirmedCtaIds = "[]" and parentWidth = 600
      and parentBgColor = "Rgb 1 1 1" and mode = Download
      and st = "\<lparr>imageAssets = [], imageCounter = 0\<rparr>"
      and ?st0.0 = "\<lparr>imageAssets = [], imageCounter = 0\<rparr>"
      and i = 0 and lastBottomY = 0 and rest = "[]"]
  by (simp add: vectorAt_sel parseLoop.simps(1))

text \<open>
  C10 (as the specification states it) fails twice.  A degenerate node does contribute
  to the output markup: in download mode, \<open>parse\<close> of a frame stacking a rectangle and,
  40 pixels below it, a vector of size zero returns a filler row of height 40 after the
  rectangle's row, which it does not return for the frame without the vector.  And a
  degenerate image-like node can be rendered and produce an asset: a frame half a pixel
  high over one 24 by 24 vector is image-like, and \<open>parse\<close> of this frame selected
  alone in download mode returns a table with the image of the vector, the asset
  \<open>image-1.png\<close> and the counter at \<open>1\<close>.
\<close>

lemma flatFrameOf_plain:
  "getEffectiveBackgroundColor_x (flatFrameOf cs) bg = \<lparr>hex = None, rgb = bg\<rparr>"
  "getBorderStyles_x (flatFrameOf cs) = None"
  "node_layoutMode (flatFrameOf cs) = Some LayoutNone"
  "node_type (flatFrameOf cs) = FRAME"
  "n_parentIsPage (props (flatFrameOf cs)) = False"
  "children (flatFrameOf cs) = cs"
  "n_paddingTop (props (flatFrameOf cs)) = Some 0"
  "n_paddingBottom (props (flatFrameOf cs)) = Some 0"
  "n_paddingLeft (props (flatFrameOf cs)) = Some 0"
  "n_paddingRight (props (flatFrameOf cs)) = Some 0"
  "node_width (flatFrameOf cs) = 600"
  "node_height (flatFrameOf cs) = 1 / 2"
  "stackedChildrenOf (flatFrameOf cs) = sort_key node_y (filter node_visible cs)"
  by (simp_all add: flatFrameOf_def blankProps_def getEffectiveBackgroundColor_x_def
      getEffectiveBackgroundColorForFills_x_def getBorderStyles_x_def stackedChildrenOf_def)

lemma flat_icon_frame_image_like:
  "isImageLikeNode_x (flatFrameOf [vectorAt (S ''logo'') 0 24 24])"
  by (simp add: flatFrameOf_def vectorAt_def blankProps_def)

lemma imgTag_not_empty: "imgTag host src finalWidth altText \<noteq> []"
  by (simp add: imgTag_def S_def)

lemma renderNode_x_logo:
  "renderNode_x (hostWith (\<lambda>n w. Some bytes)) (vectorAt (S ''logo'') 0 24 24) 600 bg Download
     \<lparr>imageAssets = [], imageCounter = 0\<rparr>
   = (imgTag (hostWith (\<lambda>n w. Some bytes)) (S ''images/image-1.png'') 24 (S ''logo''),
      \<lparr>imageAssets = [\<lparr>asset_name = S ''image-1.png'', asset_data = bytes\<rparr>],
        imageCounter = Suc 0\<rparr>)"
  by (simp add: renderNode_x.simps vectorAt_sel renderImage_def Let_def Math_round_examples
      imageName_Suc_0 altName_def hostWith_def S_def)

lemma frameOf_plain:
  "getEffectiveBackgroundColor_x (frameOf ident cs) bg = \<lparr>hex = None, rgb = bg\<rparr>"
  "getBorderStyles_x (frameOf ident cs) = None"
  "node_layoutMode (frameOf ident cs) = Some LayoutNone"
  "node_type (frameOf ident cs) = FRAME"
  "n_parentIsPage (props (frameOf ident cs)) = False"
  "children (frameOf ident cs) = cs"
  "n_paddingBottom (props (frameOf ident cs)) = Some 0"
  by (simp_all add: frameOf_def blankProps_def getEffectiveBackgroundColor_x_def
      getEffectiveBackgroundColorForFills_x_def getBorderStyles_x_def)

theorem C10_degenerate_filler_counterexample:
  "node_width (vectorAt (S ''v'') 50 0 0) < 1
   \<and> isImageLikeNode_x (vectorAt (S ''v'') 50 0 0)
   \<and> node_height (flatFrameOf [vectorAt (S ''logo'') 0 24 24]) < 1
   \<and> isImageLikeNode_x (flatFrameOf [vectorAt (S ''logo'') 0 24 24])
   \<and> parse (hostWith (\<lambda>n w. Some [1, 2, 3])) [flatFrameOf [vectorAt (S ''logo'') 0 24 24]]
        Download \<lparr>imageAssets = [], imageCounter = 0\<rparr>
      = (stackedTable
           [contentRow_x (hostWith (\<lambda>n w. Some [1, 2, 3])) 0 0
              (imgTag (hostWith (\<lambda>n w. Some [1, 2, 3])) (S ''images/image-1.png'') 24
                 (S ''logo''))],
         \<lparr>imageAssets = [\<lparr>asset_name = S ''image-1.png'', asset_data = [1, 2, 3]\<rparr>],
           imageCounter = 1\<rparr>)
   \<and> fst (parse (hostWith (\<lambda>n w. None))
        [frameOf [] [rectangleAt 0 100 10, vectorAt (S ''v'') 50 0 0]]
        Download \<lparr>imageAssets = [], imageCounter = 0\<rparr>)
      = stackedTable
          [contentRow_x (hostWith (\<lambda>n w. None)) 0 0 (renderShape_x (rectangleAt 0 100 10) (Rgb 1 1 1)),
           gapRow_x 40]
   \<and> fst (parse (hostWith (\<lambda>n w. None))
        [frameOf [] [rectangleAt 0 100 10]]
        Download \<lparr>imageAssets = [], imageCounter = 0\<rparr>)
      = stackedTable
          [contentRow_x (hostWith (\<lambda>n w. None)) 0 0 (renderShape_x (rectangleAt 0 100 10) (Rgb 1 1 1))]"
  by (simp add: parse_def renderContainer_x.simps frameOf_plain containerTable_x_def
      renderStackedChildren_x.simps frameOf_stacked
      rectangleAt_sel vectorAt_sel Let_def numberOrZero_def roundOrZero_def
      stackedLoop_x.simps renderNode_x_rectangle renderNode_x_degenerate_image
      renderShape_x_not_empty Math_round_examples hostWith_arith flatFrameOf_plain
      flat_icon_frame_image_like renderNode_x_logo imgTag_not_empty)

end
